theory Spec2Isabelle
  imports Complex_Main "HOL-Library.Char_ord" "HOL-Library.List_Lexorder"
    "HOL-Library.Multiset" "HOL-Library.Word"
begin

section \<open>Python values shared by both clients\<close>

text \<open>
  Exceptions are values.  An operation of the streaming client returns the exception it
  raised, if any, together with the state at that moment: Python keeps every mutation made
  before a \<^verbatim>\<open>raise\<close>.
\<close>

datatype error =
    CapacityError
  | TypeError
  | KeyError
  | AttributeError
  | ValueError
  | TransportError
  | AuthError

text \<open>\<^verbatim>\<open>str(n)\<close> for a Python integer: decimal digits, a leading minus sign.\<close>

definition digit_char :: "nat \<Rightarrow> char" where
  "digit_char d = char_of (48 + d)"

fun str_nat :: "nat \<Rightarrow> string" where
  "str_nat n = (if n < 10 then [digit_char n] else str_nat (n div 10) @ [digit_char (n mod 10)])"

declare str_nat.simps [simp del]

definition str_int :: "int \<Rightarrow> string" where
  "str_int i = (if i < 0 then CHR ''-'' # str_nat (nat (- i)) else str_nat (nat i))"

text \<open>Reading a decimal numeral back: the inverse of \<open>str_nat\<close>.\<close>

definition digit_val :: "char \<Rightarrow> nat" where
  "digit_val c = of_char c - 48"

definition read_nat :: "string \<Rightarrow> nat" where
  "read_nat s = foldl (\<lambda>a c. 10 * a + digit_val c) 0 s"

text \<open>\<^verbatim>\<open>int(x)\<close> for a Python float truncates towards zero.  Clock readings are
  modelled as rationals.\<close>

definition py_int :: "rat \<Rightarrow> int" where
  "py_int x = (if 0 \<le> x then \<lfloor>x\<rfloor> else \<lceil>x\<rceil>)"

text \<open>
  What the program does not define itself: the transport (the \<open>k\<close>-th network operation
  of a run either raises, \<open>None\<close>, or succeeds, and a successful receive yields a parsed
  reply), and the keyed hash of the standard library, whose digest has 256 bits.
\<close>

record world =
  net :: "nat \<Rightarrow> (string \<times> string) list option"
  hmac_sha256 :: "string \<Rightarrow> string \<Rightarrow> 256 word"

text \<open>
  The two encodings of a digest.  \<^verbatim>\<open>hexdigest()\<close> writes its 32 bytes as 64
  hexadecimal digits; \<^verbatim>\<open>base64.b64encode(digest())\<close> writes them as 43 base-64 digits,
  two zero bits appended to the 256, and one padding character.  \<open>digits_be b k n\<close> are
  the last \<open>k\<close> digits of \<open>n\<close> in base \<open>b\<close>, most significant first.
\<close>

fun digits_be :: "nat \<Rightarrow> nat \<Rightarrow> nat \<Rightarrow> nat list" where
  "digits_be b 0 n = []"
| "digits_be b (Suc k) n = digits_be b k (n div b) @ [n mod b]"


definition b64_char :: "nat \<Rightarrow> char" where
  "b64_char d = ''ABCDEFGHIJKLMNOPQRSTUVWXYZabcdefghijklmnopqrstuvwxyz0123456789+/'' ! d"


definition b64encode :: "256 word \<Rightarrow> string" where
  "b64encode d = map b64_char (digits_be 64 43 (unat d * 4)) @ ''=''"


definition hmac_sha256_b64 :: "world \<Rightarrow> string \<Rightarrow> string \<Rightarrow> string" where
  "hmac_sha256_b64 w key msg = b64encode (hmac_sha256 w key msg)"

section \<open>websocket\_client.py: BybitWebsocketClient\<close>

text \<open>
  An element of a \<^verbatim>\<open>channels\<close> argument.  Callers pass dictionaries; the reconnect
  path passes the registry's key strings.
\<close>

datatype chan_arg = ChanKey string | ChanDict "(string \<times> string) list"

datatype message = TextMsg string | OpMsg string "chan_arg list"

text \<open>
  The dictionary \<^verbatim>\<open>config.get_config('bybit')\<close> returns.  \<^verbatim>\<open>settings.py\<close> puts
  \<^verbatim>\<open>api_key\<close> and \<^verbatim>\<open>secret_key\<close> into it and refuses to start without them; it
  has no \<^verbatim>\<open>passphrase\<close> entry, so that field is optional here and \<open>None\<close> in the
  dictionary as shipped: subscripting it raises KeyError.
\<close>

record api_config =
  api_key :: string
  secret_key :: string
  passphrase :: "string option"

text \<open>
  The fields of \<^verbatim>\<open>__init__\<close>, then the simulated surroundings: \<open>clock\<close> is what
  \<^verbatim>\<open>time.time()\<close> reads, \<open>sent\<close> lists the frames \<^verbatim>\<open>ws.send\<close> accepted
  (send time, \<^verbatim>\<open>message_time\<close> at the send, frame), \<open>net_ops\<close> counts the network
  operations made so far.
\<close>

record 'cb client =
  api_cfg :: api_config
  callbacks :: "string \<rightharpoonup> 'cb"
  subscribed_channels :: "string set"
  ws :: "nat option"
  is_connected :: bool
  max_channels_per_conn :: nat
  message_rate_limit :: int
  message_count :: int
  message_time :: rat
  clock :: rat
  sent :: "(rat \<times> rat \<times> message) list"
  net_ops :: nat

definition init_client :: "api_config \<Rightarrow> rat \<Rightarrow> 'cb client" where
  "init_client cfg now =
     \<lparr> api_cfg = cfg, callbacks = Map.empty, subscribed_channels = {}, ws = None,
       is_connected = False, max_channels_per_conn = 50, message_rate_limit = 10,
       message_count = 0, message_time = now, clock = now, sent = [], net_ops = 0 \<rparr>"

definition sleep :: "rat \<Rightarrow> 'cb client \<Rightarrow> 'cb client" where
  "sleep d st = st\<lparr>clock := clock st + d\<rparr>"

definition ws_sign_message :: "rat \<Rightarrow> string" where
  "ws_sign_message now = str_int (py_int now) @ ''GET'' @ ''/user/verify''"

definition ws_generate_signature :: "world \<Rightarrow> 'cb client \<Rightarrow> string" where
  "ws_generate_signature w st =
     hmac_sha256_b64 w (secret_key (api_cfg st)) (ws_sign_message (clock st))"

text \<open>\<^verbatim>\<open>_send_message\<close>: the counter is reset when a second has passed since
  \<^verbatim>\<open>message_time\<close>; a full counter sleeps one second and resets; then the frame is
  handed to the socket and counted.\<close>

definition send_message :: "world \<Rightarrow> message \<Rightarrow> 'cb client \<Rightarrow> error option \<times> 'cb client" where
  "send_message w msg st =
     (let current_time = clock st;
          st1 = (if current_time - message_time st \<ge> 1
                 then st\<lparr>message_count := 0, message_time := current_time\<rparr> else st);
          st2 = (if message_count st1 \<ge> message_rate_limit st1
                 then (let s = sleep 1 st1 in s\<lparr>message_count := 0, message_time := clock s\<rparr>)
                 else st1)
      in case ws st2 of
           None \<Rightarrow> (Some AttributeError, st2)
         | Some _ \<Rightarrow>
             (case net w (net_ops st2) of
                None \<Rightarrow> (Some TransportError, st2\<lparr>net_ops := net_ops st2 + 1\<rparr>)
              | Some _ \<Rightarrow>
                  (None, st2\<lparr>net_ops := net_ops st2 + 1,
                             sent := sent st2 @ [(clock st2, message_time st2, msg)],
                             message_count := message_count st2 + 1\<rparr>)))"

text \<open>\<^verbatim>\<open>_authenticate\<close>: the login frame is built first, and building it reads
  \<^verbatim>\<open>self.api_config['passphrase']\<close>, a KeyError when the entry is missing; then the
  frame is sent, and one receive follows whose \<^verbatim>\<open>code\<close> must be \<^verbatim>\<open>'0'\<close>.\<close>

definition authenticate :: "world \<Rightarrow> 'cb client \<Rightarrow> error option \<times> 'cb client" where
  "authenticate w st =
     (let timestamp = str_int (py_int (clock st));
          sign = ws_generate_signature w st
      in case passphrase (api_cfg st) of
           None \<Rightarrow> (Some KeyError, st)
         | Some phrase \<Rightarrow>
             (let auth_message = OpMsg ''login''
                    [ChanDict [(''apiKey'', api_key (api_cfg st)),
                               (''passphrase'', phrase),
                               (''timestamp'', timestamp), (''sign'', sign)]]
              in case send_message w auth_message st of
                   (Some e, st1) \<Rightarrow> (Some e, st1)
                 | (None, st1) \<Rightarrow>
                     (case net w (net_ops st1) of
                        None \<Rightarrow> (Some TransportError, st1\<lparr>net_ops := net_ops st1 + 1\<rparr>)
                      | Some auth_response \<Rightarrow>
                          (if map_of auth_response ''code'' \<noteq> Some ''0''
                           then (Some AuthError, st1\<lparr>net_ops := net_ops st1 + 1\<rparr>)
                           else (None, st1\<lparr>net_ops := net_ops st1 + 1\<rparr>)))))"

text \<open>\<^verbatim>\<open>_connect\<close>.  The keep-alive and monitor tasks it spawns run concurrently and
  are outside this sequential model.\<close>

definition connect :: "world \<Rightarrow> bool \<Rightarrow> 'cb client \<Rightarrow> error option \<times> 'cb client" where
  "connect w is_private st =
     (case net w (net_ops st) of
        None \<Rightarrow> (Some TransportError, st\<lparr>net_ops := net_ops st + 1, is_connected := False\<rparr>)
      | Some _ \<Rightarrow>
          (let st1 = st\<lparr>net_ops := net_ops st + 1, ws := Some (net_ops st),
                         is_connected := True\<rparr>
           in if is_private
              then (case authenticate w st1 of
                      (Some e, st2) \<Rightarrow> (Some e, st2\<lparr>is_connected := False\<rparr>)
                    | (None, st2) \<Rightarrow> (None, st2))
              else (None, st1)))"

text \<open>The key \<^verbatim>\<open>f"{channel['instType']}.{channel['channel']}.{channel['instId']}"\<close>:
  subscripting a string with a string is a TypeError, a missing key a KeyError.\<close>

definition channel_key :: "chan_arg \<Rightarrow> error + string" where
  "channel_key c =
     (case c of
        ChanKey s \<Rightarrow> Inl TypeError
      | ChanDict d \<Rightarrow>
          (case map_of d ''instType'' of
             None \<Rightarrow> Inl KeyError
           | Some t \<Rightarrow>
               (case map_of d ''channel'' of
                  None \<Rightarrow> Inl KeyError
                | Some ch \<Rightarrow>
                    (case map_of d ''instId'' of
                       None \<Rightarrow> Inl KeyError
                     | Some i \<Rightarrow> Inr (t @ ''.'' @ ch @ ''.'' @ i)))))"

text \<open>The loop closing \<^verbatim>\<open>subscribe\<close>.\<close>

fun record_channels :: "'cb \<Rightarrow> chan_arg list \<Rightarrow> 'cb client \<Rightarrow> error option \<times> 'cb client" where
  "record_channels cb [] st = (None, st)"
| "record_channels cb (c # cs) st =
     (case channel_key c of
        Inl e \<Rightarrow> (Some e, st)
      | Inr k \<Rightarrow>
          record_channels cb cs
            (st\<lparr>callbacks := (callbacks st)(k \<mapsto> cb),
                 subscribed_channels := insert k (subscribed_channels st)\<rparr>))"

text \<open>\<^verbatim>\<open>subscribe(channels, callback)\<close>.  \<^verbatim>\<open>callback\<close> has no default: a call that
  leaves it out (\<open>None\<close> here) raises TypeError before the body runs.\<close>

definition subscribe ::
  "world \<Rightarrow> chan_arg list \<Rightarrow> 'cb option \<Rightarrow> 'cb client \<Rightarrow> error option \<times> 'cb client" where
  "subscribe w channels callback st =
     (case callback of
        None \<Rightarrow> (Some TypeError, st)
      | Some cb \<Rightarrow>
          if card (subscribed_channels st) + length channels > max_channels_per_conn st
          then (Some CapacityError, st)
          else (case (if \<not> is_connected st then connect w False st else (None, st)) of
                  (Some e, st1) \<Rightarrow> (Some e, st1)
                | (None, st1) \<Rightarrow>
                    (case send_message w (OpMsg ''subscribe'' channels) st1 of
                       (Some e, st2) \<Rightarrow> (Some e, st2)
                     | (None, st2) \<Rightarrow> record_channels cb channels st2)))"

text \<open>The loop closing \<^verbatim>\<open>unsubscribe\<close>: \<^verbatim>\<open>pop(key, None)\<close> and \<^verbatim>\<open>discard\<close>.\<close>

fun remove_channels :: "chan_arg list \<Rightarrow> 'cb client \<Rightarrow> error option \<times> 'cb client" where
  "remove_channels [] st = (None, st)"
| "remove_channels (c # cs) st =
     (case channel_key c of
        Inl e \<Rightarrow> (Some e, st)
      | Inr k \<Rightarrow>
          remove_channels cs
            (st\<lparr>callbacks := (callbacks st)(k := None),
                 subscribed_channels := subscribed_channels st - {k}\<rparr>))"

definition unsubscribe :: "world \<Rightarrow> chan_arg list \<Rightarrow> 'cb client \<Rightarrow> error option \<times> 'cb client" where
  "unsubscribe w channels st =
     (case send_message w (OpMsg ''unsubscribe'' channels) st of
        (Some e, st1) \<Rightarrow> (Some e, st1)
      | (None, st1) \<Rightarrow> remove_channels channels st1)"

text \<open>
  \<^verbatim>\<open>_reconnect\<close>.  \<open>reconnect_try\<close> is the body of its \<^verbatim>\<open>try\<close>: close the old
  socket, connect (privately when channels are recorded), then
  \<^verbatim>\<open>self.subscribe(list(self.subscribed_channels))\<close>, a call with one argument.  The
  handler sleeps five seconds and calls \<^verbatim>\<open>_reconnect\<close> again, without bound: the fuel
  counts the attempts, \<open>Inl\<close> is "still retrying", \<open>Inr\<close> is "returned".
\<close>

definition close_socket :: "world \<Rightarrow> 'cb client \<Rightarrow> error option \<times> 'cb client" where
  "close_socket w st =
     (case ws st of
        None \<Rightarrow> (None, st)
      | Some _ \<Rightarrow>
          (case net w (net_ops st) of
             None \<Rightarrow> (Some TransportError, st\<lparr>net_ops := net_ops st + 1\<rparr>)
           | Some _ \<Rightarrow> (None, st\<lparr>net_ops := net_ops st + 1\<rparr>)))"

definition reconnect_try :: "world \<Rightarrow> 'cb client \<Rightarrow> error option \<times> 'cb client" where
  "reconnect_try w st =
     (case close_socket w st of
        (Some e, st1) \<Rightarrow> (Some e, st1)
      | (None, st1) \<Rightarrow>
          (case connect w (card (subscribed_channels st1) > 0) st1 of
             (Some e, st2) \<Rightarrow> (Some e, st2)
           | (None, st2) \<Rightarrow>
               if subscribed_channels st2 \<noteq> {}
               then subscribe w (map ChanKey (sorted_list_of_set (subscribed_channels st2))) None st2
               else (None, st2)))"

fun reconnect :: "nat \<Rightarrow> world \<Rightarrow> 'cb client \<Rightarrow> 'cb client + 'cb client" where
  "reconnect 0 w st = Inl st"
| "reconnect (Suc fuel) w st =
     (case reconnect_try w (st\<lparr>is_connected := False\<rparr>) of
        (None, st1) \<Rightarrow> Inr st1
      | (Some e, st1) \<Rightarrow> reconnect fuel w (sleep 5 st1))"

text \<open>The frame condition of the transport operations: they leave the registry and the
  configuration alone.\<close>

definition same_registry :: "'cb client \<Rightarrow> 'cb client \<Rightarrow> bool" where
  "same_registry st st' =
     (callbacks st' = callbacks st \<and> subscribed_channels st' = subscribed_channels st \<and>
      max_channels_per_conn st' = max_channels_per_conn st \<and>
      message_rate_limit st' = message_rate_limit st \<and> api_cfg st' = api_cfg st)"

section \<open>Concrete inputs\<close>

text \<open>
  A transport on which every operation succeeds and every receive yields a login
  acknowledgement.  The keyed hash is a stand-in that only serves to run examples; no
  theorem depends on it.
\<close>

definition world_ok :: world where
  "world_ok = \<lparr> net = (\<lambda>k. Some [(''code'', ''0'')]),
                 hmac_sha256 = (\<lambda>key msg. of_nat (length key + length msg)) \<rparr>"

definition demo_cfg :: api_config where
  "demo_cfg = \<lparr> api_key = ''key'', secret_key = ''secret'', passphrase = None \<rparr>"

definition ticker :: "nat \<Rightarrow> chan_arg" where
  "ticker n = ChanDict [(''instType'', ''USDT-FUTURES''), (''channel'', ''ticker''),
                        (''instId'', ''SYM'' @ str_nat n)]"

definition ticker_key :: "nat \<Rightarrow> string" where
  "ticker_key n = ''USDT-FUTURES.ticker.SYM'' @ str_nat n"

text \<open>A client that has subscribed fifty channels in one call, all bound to callback 7.\<close>

definition full_client :: "nat client" where
  "full_client = snd (subscribe world_ok (map ticker [0..<50]) (Some 7) (init_client demo_cfg 0))"

section \<open>The subscription registry\<close>

text \<open>The keys a \<^verbatim>\<open>channels\<close> argument names.\<close>

definition requested_keys :: "chan_arg list \<Rightarrow> string set" where
  "requested_keys channels =
     set (concat (map (\<lambda>c. case channel_key c of Inl e \<Rightarrow> [] | Inr k \<Rightarrow> [k]) channels))"

section \<open>Sequences of registry calls\<close>

text \<open>A caller's history: \<^verbatim>\<open>subscribe(channels, callback)\<close> and
  \<^verbatim>\<open>unsubscribe(channels)\<close> calls, run in order until one raises.\<close>

datatype 'cb call = Subscribe "chan_arg list" 'cb | Unsubscribe "chan_arg list"

fun perform :: "world \<Rightarrow> 'cb call \<Rightarrow> 'cb client \<Rightarrow> error option \<times> 'cb client" where
  "perform w (Subscribe cs cb) st = subscribe w cs (Some cb) st"
| "perform w (Unsubscribe cs) st = unsubscribe w cs st"

fun run_calls :: "world \<Rightarrow> 'cb call list \<Rightarrow> 'cb client \<Rightarrow> error option \<times> 'cb client" where
  "run_calls w [] st = (None, st)"
| "run_calls w (c # calls) st =
     (case perform w c st of
        (Some e, st1) \<Rightarrow> (Some e, st1)
      | (None, st1) \<Rightarrow> run_calls w calls st1)"

text \<open>The effect of a call sequence on the two registry fields, computed on the keys the
  code builds.  The proofs use it to follow \<open>run_calls\<close>.\<close>

fun registry_keys_after :: "string set \<Rightarrow> 'cb call list \<Rightarrow> string set" where
  "registry_keys_after S [] = S"
| "registry_keys_after S (Subscribe cs cb # calls) = registry_keys_after (S \<union> requested_keys cs) calls"
| "registry_keys_after S (Unsubscribe cs # calls) = registry_keys_after (S - requested_keys cs) calls"

fun registry_bindings_after :: "(string \<rightharpoonup> 'cb) \<Rightarrow> 'cb call list \<Rightarrow> (string \<rightharpoonup> 'cb)" where
  "registry_bindings_after m [] = m"
| "registry_bindings_after m (Subscribe cs cb # calls) =
     registry_bindings_after (\<lambda>k. if k \<in> requested_keys cs then Some cb else m k) calls"
| "registry_bindings_after m (Unsubscribe cs # calls) =
     registry_bindings_after (\<lambda>k. if k \<in> requested_keys cs then None else m k) calls"

definition demo_calls :: "nat call list" where
  "demo_calls = [Subscribe [ticker 2, ticker 3] 1, Subscribe [ticker 2] 2, Unsubscribe [ticker 3]]"

text \<open>The subscribe frames among the frames sent so far.\<close>

definition is_subscribe_frame :: "rat \<times> rat \<times> message \<Rightarrow> bool" where
  "is_subscribe_frame e =
     (case snd (snd e) of OpMsg op args \<Rightarrow> op = ''subscribe'' | TextMsg t \<Rightarrow> False)"

definition subscribe_frames :: "'cb client \<Rightarrow> (rat \<times> rat \<times> message) list" where
  "subscribe_frames st = filter is_subscribe_frame (sent st)"

text \<open>A client that has subscribed one channel, bound to callback 7.\<close>

definition one_channel_client :: "nat client" where
  "one_channel_client = snd (subscribe world_ok [ticker 2] (Some 7) (init_client demo_cfg 0))"

section \<open>The rate limiter\<close>










section \<open>data\_api.py: BitgetAPI\<close>

text \<open>Parsed JSON, and the Python values the client builds its request bodies from.  Floats
  are modelled as rationals.\<close>

datatype json =
    JNull
  | JBool bool
  | JNum rat
  | JStr string
  | JList "json list"
  | JObj "(string \<times> json) list"

record http_request =
  req_method :: string
  req_url :: string
  req_headers :: "(string \<times> string) list"
  req_json :: "json option"

text \<open>What \<^verbatim>\<open>session.request\<close> followed by \<^verbatim>\<open>response.json()\<close> does: raise (timeout,
  connection refused, a body that is not JSON), or yield a status and a parsed body.\<close>

datatype http_reply = Raises | Replies int json

text \<open>
  What the program takes from outside: the answer to the \<open>k\<close>-th request, the clock in
  milliseconds when \<open>k\<close> requests have been made, and the library functions
  \<^verbatim>\<open>urlencode\<close>, \<^verbatim>\<open>json.dumps\<close>, the base64 keyed hash, \<^verbatim>\<open>float(str)\<close>,
  \<^verbatim>\<open>int(str)\<close> (\<open>None\<close> is ValueError) and \<^verbatim>\<open>str(float)\<close>.
\<close>

record rest_world =
  respond :: "nat \<Rightarrow> http_request \<Rightarrow> http_reply"
  clock_ms :: "nat \<Rightarrow> int"
  urlencode :: "(string \<times> string) list \<Rightarrow> string"
  json_dumps :: "json \<Rightarrow> string"
  sign_b64 :: "string \<Rightarrow> string \<Rightarrow> string"
  float_of_str :: "string \<Rightarrow> rat option"
  int_of_str :: "string \<Rightarrow> int option"
  str_of_float :: "rat \<Rightarrow> string"

datatype log_entry = LogInfo string | LogError string | LogDebug string

record bitget_api =
  API_KEY :: string
  SECRET_KEY :: string
  PASSPHRASE :: string
  BASE_URL :: string
  session_open :: bool
  requests_made :: "http_request list"
  logged :: "log_entry list"

text \<open>The \<^verbatim>\<open>Position\<close> dataclass of \<^verbatim>\<open>models\<close>, with the fields \<^verbatim>\<open>get_position\<close>
  passes to its constructor (each
  field name prefixed with \<open>pos\<close>).\<close>

record position =
  pos_symbol :: string
  pos_side :: string
  pos_size :: rat
  pos_entry_price :: rat
  pos_stop_loss_price :: rat
  pos_take_profit_price :: rat
  pos_timestamp :: int
  pos_leverage :: int
  pos_break_even_price :: rat
  pos_unrealized_pl :: rat
  pos_margin_size :: rat
  pos_available :: rat
  pos_locked :: rat
  pos_liquidation_price :: rat
  pos_margin_ratio :: rat
  pos_mark_price :: rat
  pos_achieved_profits :: rat
  pos_total_fee :: rat
  pos_margin_mode :: json

definition bind_err :: "error + 'a \<Rightarrow> ('a \<Rightarrow> error + 'b) \<Rightarrow> error + 'b" where
  "bind_err m f = (case m of Inl e \<Rightarrow> Inl e | Inr x \<Rightarrow> f x)"

text \<open>Truthiness, \<^verbatim>\<open>d.get(k, default)\<close>, \<^verbatim>\<open>float(v)\<close> and \<^verbatim>\<open>int(v)\<close>.\<close>

definition truthy :: "json \<Rightarrow> bool" where
  "truthy v =
     (case v of
        JNull \<Rightarrow> False | JBool b \<Rightarrow> b | JNum x \<Rightarrow> x \<noteq> 0 | JStr s \<Rightarrow> s \<noteq> []
      | JList l \<Rightarrow> l \<noteq> [] | JObj d \<Rightarrow> d \<noteq> [])"

definition dict_get :: "json \<Rightarrow> string \<Rightarrow> json \<Rightarrow> error + json" where
  "dict_get d k dflt =
     (case d of
        JObj kv \<Rightarrow> (case map_of kv k of None \<Rightarrow> Inr dflt | Some v \<Rightarrow> Inr v)
      | _ \<Rightarrow> Inl AttributeError)"

definition py_float :: "rest_world \<Rightarrow> json \<Rightarrow> error + rat" where
  "py_float w v =
     (case v of
        JStr s \<Rightarrow> (case float_of_str w s of None \<Rightarrow> Inl ValueError | Some x \<Rightarrow> Inr x)
      | JNum x \<Rightarrow> Inr x
      | JBool b \<Rightarrow> Inr (if b then 1 else 0)
      | _ \<Rightarrow> Inl TypeError)"

definition py_int_of :: "rest_world \<Rightarrow> json \<Rightarrow> error + int" where
  "py_int_of w v =
     (case v of
        JStr s \<Rightarrow> (case int_of_str w s of None \<Rightarrow> Inl ValueError | Some n \<Rightarrow> Inr n)
      | JNum x \<Rightarrow> Inr (py_int x)
      | JBool b \<Rightarrow> Inr (if b then 1 else 0)
      | _ \<Rightarrow> Inl TypeError)"

definition get_float :: "rest_world \<Rightarrow> json \<Rightarrow> string \<Rightarrow> error + rat" where
  "get_float w d k = bind_err (dict_get d k (JStr ''0'')) (py_float w)"

definition get_int :: "rest_world \<Rightarrow> json \<Rightarrow> string \<Rightarrow> json \<Rightarrow> error + int" where
  "get_int w d k dflt = bind_err (dict_get d k dflt) (py_int_of w)"

text \<open>\<^verbatim>\<open>str.split(sep)\<close>, \<^verbatim>\<open>sep.join\<close> and \<^verbatim>\<open>str.upper\<close> on ASCII.\<close>

fun split_on :: "char \<Rightarrow> string \<Rightarrow> string list" where
  "split_on c [] = [[]]"
| "split_on c (x # xs) =
     (if x = c then [] # split_on c xs
      else (case split_on c xs of y # ys \<Rightarrow> (x # y) # ys | [] \<Rightarrow> [[x]]))"

fun join :: "string \<Rightarrow> string list \<Rightarrow> string" where
  "join sep [] = []"
| "join sep [x] = x"
| "join sep (x # y # ys) = x @ sep @ join sep (y # ys)"

definition upper :: "string \<Rightarrow> string" where
  "upper s = map (\<lambda>c. if CHR ''a'' \<le> c \<and> c \<le> CHR ''z''
                       then char_of (of_char c - (32 :: nat)) else c) s"

text \<open>\<^verbatim>\<open>BitgetAPI._generate_signature\<close> and \<^verbatim>\<open>_create_headers\<close>.\<close>

definition bitget_generate_signature ::
  "rest_world \<Rightarrow> bitget_api \<Rightarrow> string \<Rightarrow> string \<Rightarrow> string \<Rightarrow> string \<Rightarrow> string" where
  "bitget_generate_signature w api timestamp method request_path body =
     sign_b64 w (SECRET_KEY api) (timestamp @ method @ request_path @ body)"

definition create_headers ::
  "rest_world \<Rightarrow> bitget_api \<Rightarrow> string \<Rightarrow> string \<Rightarrow> string \<Rightarrow> (string \<times> string) list" where
  "create_headers w api method request_path body =
     (let timestamp = str_int (clock_ms w (length (requests_made api)));
          request_path1 =
            (if CHR ''?'' \<in> set request_path
             then (let base_path = takeWhile (\<lambda>c. c \<noteq> CHR ''?'') request_path;
                       query = tl (dropWhile (\<lambda>c. c \<noteq> CHR ''?'') request_path);
                       params = sort (split_on CHR ''&'' query)
                   in base_path @ ''?'' @ join ''&'' params)
             else request_path);
          signature = bitget_generate_signature w api timestamp (upper method) request_path1 body
      in [(''ACCESS-KEY'', API_KEY api), (''ACCESS-SIGN'', signature),
          (''ACCESS-TIMESTAMP'', timestamp), (''ACCESS-PASSPHRASE'', PASSPHRASE api),
          (''Content-Type'', ''application/json''), (''ACCESS-VERSION'', ''2'')])"

text \<open>\<^verbatim>\<open>_request\<close>: everything from building the URL to parsing the reply sits in one
  \<^verbatim>\<open>try\<close>, whose handler logs and returns \<^verbatim>\<open>None\<close>.\<close>

definition request ::
  "rest_world \<Rightarrow> string \<Rightarrow> string \<Rightarrow> (string \<times> string) list \<Rightarrow> json option \<Rightarrow> bitget_api
     \<Rightarrow> json option \<times> bitget_api" where
  "request w method endpoint params data api =
     (let api1 = api\<lparr>session_open := True\<rparr>;
          query = (if params \<noteq> [] then ''?'' @ urlencode w (sort_key fst params) else '''');
          url = BASE_URL api1 @ endpoint @ query;
          headers = create_headers w api1 method (endpoint @ query)
                      (case data of
                         None \<Rightarrow> ''''
                       | Some d \<Rightarrow> if truthy d then json_dumps w d else '''');
          req = \<lparr>req_method = method, req_url = url, req_headers = headers, req_json = data\<rparr>;
          api2 = api1\<lparr>requests_made := requests_made api1 @ [req]\<rparr>
      in case respond w (length (requests_made api1)) req of
           Raises \<Rightarrow> (None, api2\<lparr>logged := logged api2 @ [LogError ''Request error'']\<rparr>)
         | Replies status response_data \<Rightarrow>
             (Some response_data,
              api2\<lparr>logged := logged api2 @
                      (LogInfo ''API'' # (if status \<noteq> 200 then [LogError ''API Error''] else []))\<rparr>))"

text \<open>\<^verbatim>\<open>get_position\<close>.  \<open>make_position\<close> is the constructor call, its conversions
  evaluated in the order written; \<open>position_of_response\<close> is what follows the request.\<close>

definition make_position :: "rest_world \<Rightarrow> string \<Rightarrow> int \<Rightarrow> json \<Rightarrow> error + position" where
  "make_position w symbol now position_data =
     bind_err (dict_get position_data ''holdSide'' JNull) (\<lambda>hold_side.
     bind_err (get_float w position_data ''total'') (\<lambda>total.
     bind_err (get_float w position_data ''openPriceAvg'') (\<lambda>open_price_avg.
     bind_err (get_int w position_data ''leverage'' (JStr ''1'')) (\<lambda>lev.
     bind_err (get_float w position_data ''breakEvenPrice'') (\<lambda>break_even.
     bind_err (get_float w position_data ''unrealizedPL'') (\<lambda>unrealized.
     bind_err (get_float w position_data ''marginSize'') (\<lambda>margin.
     bind_err (get_float w position_data ''available'') (\<lambda>avail.
     bind_err (get_float w position_data ''locked'') (\<lambda>lock.
     bind_err (get_float w position_data ''liquidationPrice'') (\<lambda>liq.
     bind_err (get_float w position_data ''marginRatio'') (\<lambda>ratio.
     bind_err (get_float w position_data ''markPrice'') (\<lambda>mark.
     bind_err (get_float w position_data ''achievedProfits'') (\<lambda>achieved.
     bind_err (get_float w position_data ''totalFee'') (\<lambda>fee.
     bind_err (dict_get position_data ''marginMode'' (JStr ''crossed'')) (\<lambda>mode.
       Inr \<lparr> pos_symbol = symbol,
             pos_side = (if hold_side = JStr ''long'' then ''long'' else ''short''),
             pos_size = total, pos_entry_price = open_price_avg,
             pos_stop_loss_price = 0, pos_take_profit_price = 0, pos_timestamp = now, pos_leverage = lev,
             pos_break_even_price = break_even, pos_unrealized_pl = unrealized, pos_margin_size = margin,
             pos_available = avail, pos_locked = lock, pos_liquidation_price = liq, pos_margin_ratio = ratio,
             pos_mark_price = mark, pos_achieved_profits = achieved, pos_total_fee = fee,
             pos_margin_mode = mode \<rparr>)))))))))))))))"

text \<open>\<^verbatim>\<open>response['data'][0] if isinstance(response['data'], list) else response['data']\<close>,
  for a truthy \<^verbatim>\<open>response['data']\<close>.\<close>

definition position_data_of :: "json \<Rightarrow> json" where
  "position_data_of data = (case data of JList (x # xs) \<Rightarrow> x | _ \<Rightarrow> data)"

definition position_of_response ::
  "rest_world \<Rightarrow> string \<Rightarrow> int \<Rightarrow> json option \<Rightarrow> error + position option" where
  "position_of_response w symbol now response =
     (case response of
        None \<Rightarrow> Inr None
      | Some r \<Rightarrow>
          if \<not> truthy r then Inr None
          else bind_err (dict_get r ''code'' JNull) (\<lambda>code.
            if code \<noteq> JStr ''00000'' then Inr None
            else bind_err (dict_get r ''data'' JNull) (\<lambda>data.
              if \<not> truthy data then Inr None
              else (let position_data = position_data_of data
                    in bind_err (get_float w position_data ''total'') (\<lambda>total.
                         if total > 0
                         then bind_err (make_position w symbol now position_data) (\<lambda>p. Inr (Some p))
                         else Inr None)))))"

definition get_position ::
  "rest_world \<Rightarrow> string \<Rightarrow> bitget_api \<Rightarrow> (error + position option) \<times> bitget_api" where
  "get_position w symbol api =
     (let params = [(''symbol'', symbol), (''marginMode'', ''crossed''),
                    (''productType'', ''USDT-FUTURES''), (''marginCoin'', ''USDT'')];
          (response, api1) =
             request w ''GET'' ''/api/v2/mix/position/single-position'' params None api
      in (position_of_response w symbol (clock_ms w (length (requests_made api1))) response, api1))"

text \<open>Python's \<^verbatim>\<open>round(x)\<close> on a float: to the nearest integer, ties to the even one.
  \<open>normalize_price\<close> is \<^verbatim>\<open>str(round(float(price) * 10) / 10)\<close>.\<close>

definition py_round :: "rat \<Rightarrow> int" where
  "py_round x =
     (let f = \<lfloor>x\<rfloor>; r = x - of_int f
      in if r < 1 / 2 then f else if 1 / 2 < r then f + 1 else if even f then f else f + 1)"

definition normalize_price :: "rest_world \<Rightarrow> string \<Rightarrow> error + string" where
  "normalize_price w price =
     (case float_of_str w price of
        None \<Rightarrow> Inl ValueError
      | Some x \<Rightarrow> Inr (str_of_float w (of_int (py_round (x * 10)) / 10)))"

text \<open>\<^verbatim>\<open>place_order\<close>.  An argument left at \<^verbatim>\<open>None\<close> is \<open>None\<close>; \<open>size'\<close> is the
  parameter \<^verbatim>\<open>size\<close>.\<close>

definition order_type_mapping :: "(string \<times> string) list" where
  "order_type_mapping =
     [(''market'', ''market''), (''limit'', ''limit''), (''stop'', ''profit_stop'')]"

definition str_truthy :: "string option \<Rightarrow> bool" where
  "str_truthy s = (case s of None \<Rightarrow> False | Some t \<Rightarrow> t \<noteq> [])"

definition normalize_opt :: "rest_world \<Rightarrow> string option \<Rightarrow> error + string option" where
  "normalize_opt w price =
     (if str_truthy price
      then bind_err (normalize_price w (the price)) (\<lambda>p. Inr (Some p))
      else Inr price)"

definition place_order_body ::
  "rest_world \<Rightarrow> string \<Rightarrow> string \<Rightarrow> string \<Rightarrow> string \<Rightarrow> string \<Rightarrow> string \<Rightarrow>
     string option \<Rightarrow> string option \<Rightarrow> error + (string \<times> json) list" where
  "place_order_body w symbol side trade_side size' margin_coin order_type price trigger_price =
     bind_err (normalize_opt w price) (\<lambda>price1.
     bind_err (normalize_opt w trigger_price) (\<lambda>trigger_price1.
       (let body = [(''symbol'', JStr symbol), (''productType'', JStr ''USDT-FUTURES''),
                    (''marginMode'', JStr ''crossed''), (''marginCoin'', JStr margin_coin),
                    (''side'', JStr side), (''tradeSide'', JStr trade_side),
                    (''orderType'',
                       JStr (case map_of order_type_mapping order_type of
                               None \<Rightarrow> ''limit'' | Some t \<Rightarrow> t)),
                    (''size'', JStr size')]
        in Inr (if order_type = ''limit'' \<and> str_truthy price1
                then body @ [(''price'', JStr (the price1))]
                else if order_type = ''stop'' \<and> str_truthy trigger_price1
                then body @ [(''triggerPrice'', JStr (the trigger_price1)),
                             (''holdSide'', JStr (if side = ''buy'' then ''short'' else ''long''))]
                else body))))"

definition place_order ::
  "rest_world \<Rightarrow> string \<Rightarrow> string \<Rightarrow> string \<Rightarrow> string \<Rightarrow> string \<Rightarrow> string \<Rightarrow>
     string option \<Rightarrow> string option \<Rightarrow> bitget_api \<Rightarrow> (error + json option) \<times> bitget_api" where
  "place_order w symbol side trade_side size' margin_coin order_type price trigger_price api =
     (case place_order_body w symbol side trade_side size' margin_coin order_type price
             trigger_price of
        Inl e \<Rightarrow> (Inl e, api)
      | Inr body \<Rightarrow>
          (let (r, api1) = request w ''POST'' ''/api/v2/mix/order/place-order'' []
                             (Some (JObj body)) api
           in (Inr r, api1)))"

text \<open>The other operations.\<close>

definition place_tpsl_order ::
  "rest_world \<Rightarrow> string \<Rightarrow> string \<Rightarrow> string \<Rightarrow> string \<Rightarrow> string \<Rightarrow> string \<Rightarrow> bitget_api
     \<Rightarrow> (error + json option) \<times> bitget_api" where
  "place_tpsl_order w symbol plan_type trigger_price hold_side size' execute_price api =
     (case normalize_price w trigger_price of
        Inl e \<Rightarrow> (Inl e, api)
      | Inr trigger \<Rightarrow>
          (let body = [(''symbol'', JStr (upper symbol)), (''marginCoin'', JStr ''USDT''),
                       (''productType'', JStr ''USDT-FUTURES''), (''planType'', JStr plan_type),
                       (''triggerPrice'', JStr trigger), (''triggerType'', JStr ''mark_price''),
                       (''executePrice'', JStr execute_price), (''holdSide'', JStr hold_side),
                       (''size'', JStr size')];
               (r, api1) = request w ''POST'' ''/api/v2/mix/order/place-tpsl-order'' []
                             (Some (JObj body)) api
           in (Inr r, api1)))"

definition close_position ::
  "rest_world \<Rightarrow> string \<Rightarrow> string \<Rightarrow> bitget_api \<Rightarrow> json option \<times> bitget_api" where
  "close_position w symbol margin_coin api =
     request w ''POST'' ''/api/v2/mix/order/close-positions'' []
       (Some (JObj [(''symbol'', JStr symbol), (''marginCoin'', JStr margin_coin),
                    (''productType'', JStr ''USDT-FUTURES'')])) api"

definition get_order_detail ::
  "rest_world \<Rightarrow> string \<Rightarrow> string \<Rightarrow> bitget_api \<Rightarrow> json option \<times> bitget_api" where
  "get_order_detail w symbol order_id api =
     request w ''GET'' ''/api/v2/mix/order/detail''
       [(''symbol'', symbol), (''orderId'', order_id)] None api"

definition cancel_order ::
  "rest_world \<Rightarrow> string \<Rightarrow> json \<Rightarrow> bitget_api \<Rightarrow> json option \<times> bitget_api" where
  "cancel_order w symbol order_id api =
     request w ''POST'' ''/api/v2/mix/order/cancel-order'' []
       (Some (JObj [(''symbol'', JStr symbol), (''orderId'', order_id)])) api"

definition get_pending_orders ::
  "rest_world \<Rightarrow> string option \<Rightarrow> string option \<Rightarrow> string \<Rightarrow> bitget_api
     \<Rightarrow> json option \<times> bitget_api" where
  "get_pending_orders w symbol status limit api =
     request w ''GET'' ''/api/v2/mix/order/orders-pending''
       ([(''productType'', ''USDT-FUTURES''), (''limit'', limit)]
        @ (if str_truthy symbol then [(''symbol'', the symbol)] else [])
        @ (if str_truthy status then [(''status'', the status)] else []))
       None api"

text \<open>
  \<^verbatim>\<open>cancel_all_pending_orders\<close>.  \<open>response_ok\<close> is the test
  \<^verbatim>\<open>r and r.get('code') == '00000'\<close>; \<open>iterate\<close> is what a \<^verbatim>\<open>for\<close> loop walks
  through; \<open>sweep\<close> is the loop, \<open>results\<close> its accumulator.
\<close>

definition response_ok :: "json option \<Rightarrow> error + bool" where
  "response_ok response =
     (case response of
        None \<Rightarrow> Inr False
      | Some r \<Rightarrow>
          if \<not> truthy r then Inr False
          else bind_err (dict_get r ''code'' JNull) (\<lambda>code. Inr (code = JStr ''00000'')))"

definition iterate :: "json \<Rightarrow> error + json list" where
  "iterate v =
     (case v of
        JList l \<Rightarrow> Inr l
      | JObj d \<Rightarrow> Inr (map (\<lambda>kv. JStr (fst kv)) d)
      | JStr s \<Rightarrow> Inr (map (\<lambda>c. JStr [c]) s)
      | _ \<Rightarrow> Inl TypeError)"

fun sweep ::
  "rest_world \<Rightarrow> string \<Rightarrow> int \<Rightarrow> json list \<Rightarrow> json option list \<Rightarrow> bitget_api
     \<Rightarrow> (error + json option list) \<times> bitget_api" where
  "sweep w symbol current_time_ms [] results api = (Inr results, api)"
| "sweep w symbol current_time_ms (order # orders) results api =
     (case dict_get order ''orderId'' JNull of
        Inl e \<Rightarrow> (Inl e, api)
      | Inr order_id \<Rightarrow>
          (case get_int w order ''cTime'' (JNum 0) of
             Inl e \<Rightarrow> (Inl e, api)
           | Inr order_time \<Rightarrow>
               if truthy order_id \<and> current_time_ms - order_time \<ge> 30 * 1000
               then (let (result, api1) = cancel_order w symbol order_id api
                     in case response_ok result of
                          Inl e \<Rightarrow> (Inl e, api1)
                        | Inr ok \<Rightarrow>
                            sweep w symbol current_time_ms orders (results @ [result])
                              (api1\<lparr>logged := logged api1 @
                                 [if ok then LogInfo ''cancelled'' else LogError ''cancel failed'']\<rparr>))
               else sweep w symbol current_time_ms orders results
                      (api\<lparr>logged := logged api @ [LogDebug ''kept'']\<rparr>)))"

definition cancel_all_pending_orders ::
  "rest_world \<Rightarrow> string \<Rightarrow> bitget_api \<Rightarrow> (error + json option list) \<times> bitget_api" where
  "cancel_all_pending_orders w symbol api =
     (let current_time_ms = clock_ms w (length (requests_made api));
          (pending_orders, api1) = get_pending_orders w (Some symbol) None ''100'' api
      in case response_ok pending_orders of
           Inl e \<Rightarrow> (Inl e, api1)
         | Inr ok \<Rightarrow>
             if \<not> ok then (Inr [], api1)
             else (case bind_err (dict_get (the pending_orders) ''data'' (JObj []))
                          (\<lambda>d. dict_get d ''entrustedList'' (JList [])) of
                     Inl e \<Rightarrow> (Inl e, api1)
                   | Inr orders \<Rightarrow>
                       if \<not> truthy orders then (Inr [], api1)
                       else (case iterate orders of
                               Inl e \<Rightarrow> (Inl e, api1)
                             | Inr os \<Rightarrow> sweep w symbol current_time_ms os [] api1)))"

section \<open>Requests and replies\<close>

text \<open>What \<^verbatim>\<open>_request\<close> returns for a reply, and the request \<^verbatim>\<open>get_position\<close> sends.\<close>

definition reply_of :: "http_reply \<Rightarrow> json option" where
  "reply_of r = (case r of Raises \<Rightarrow> None | Replies status response_data \<Rightarrow> Some response_data)"

definition built_request ::
  "rest_world \<Rightarrow> string \<Rightarrow> string \<Rightarrow> (string \<times> string) list \<Rightarrow> json option \<Rightarrow> bitget_api
     \<Rightarrow> http_request" where
  "built_request w method endpoint params data api =
     (let api1 = api\<lparr>session_open := True\<rparr>;
          query = (if params \<noteq> [] then ''?'' @ urlencode w (sort_key fst params) else '''')
      in \<lparr>req_method = method, req_url = BASE_URL api1 @ endpoint @ query,
          req_headers = create_headers w api1 method (endpoint @ query)
                      (case data of
                         None \<Rightarrow> ''''
                       | Some d \<Rightarrow> if truthy d then json_dumps w d else ''''),
          req_json = data\<rparr>)"

definition position_request :: "rest_world \<Rightarrow> string \<Rightarrow> bitget_api \<Rightarrow> http_request" where
  "position_request w symbol api =
     built_request w ''GET'' ''/api/v2/mix/position/single-position''
       [(''symbol'', symbol), (''marginMode'', ''crossed''),
        (''productType'', ''USDT-FUTURES''), (''marginCoin'', ''USDT'')] None api"

text \<open>The answer to the next request \<^verbatim>\<open>get_position\<close> makes.\<close>

definition position_reply :: "rest_world \<Rightarrow> string \<Rightarrow> bitget_api \<Rightarrow> http_reply" where
  "position_reply w symbol api =
     respond w (length (requests_made api)) (position_request w symbol api)"

text \<open>Every numeric field of the position entry converts.\<close>

definition numeric_fields_ok :: "rest_world \<Rightarrow> json \<Rightarrow> bool" where
  "numeric_fields_ok w pd =
     (list_all (\<lambda>k. \<not> isl (get_float w pd k))
        [''total'', ''openPriceAvg'', ''breakEvenPrice'', ''unrealizedPL'', ''marginSize'',
         ''available'', ''locked'', ''liquidationPrice'', ''marginRatio'', ''markPrice'',
         ''achievedProfits'', ''totalFee''] \<and>
      \<not> isl (get_int w pd ''leverage'' (JStr ''1'')))"

section \<open>Concrete inputs for the REST client\<close>

text \<open>Stand-ins for the library conversions, good for the plain decimal numerals of the
  examples, and a transport that answers the \<open>k\<close>-th request with \<open>replies k\<close> while the
  clock stands at \<open>now\<close> milliseconds.\<close>

definition digits_only :: "string \<Rightarrow> bool" where
  "digits_only s = (s \<noteq> [] \<and> list_all (\<lambda>c. c \<in> set ''0123456789'') s)"

definition demo_int :: "string \<Rightarrow> int option" where
  "demo_int s = (if digits_only s then Some (int (read_nat s)) else None)"

definition demo_float :: "string \<Rightarrow> rat option" where
  "demo_float s =
     (case split_on CHR ''.'' s of
        [a] \<Rightarrow> if digits_only a then Some (of_nat (read_nat a)) else None
      | [a, b] \<Rightarrow> if digits_only a \<and> digits_only b
                  then Some (of_nat (read_nat a) + of_nat (read_nat b) / 10 ^ length b)
                  else None
      | _ \<Rightarrow> None)"

definition demo_str_float :: "rat \<Rightarrow> string" where
  "demo_str_float x = str_int \<lfloor>x\<rfloor> @ ''.'' @ str_int (\<lfloor>x * 10\<rfloor> mod 10)"

definition rest_script :: "(nat \<Rightarrow> http_reply) \<Rightarrow> int \<Rightarrow> rest_world" where
  "rest_script replies now =
     \<lparr> respond = (\<lambda>k req. replies k), clock_ms = (\<lambda>k. now),
       urlencode = (\<lambda>kv. join ''&'' (map (\<lambda>p. fst p @ ''='' @ snd p) kv)),
       json_dumps = (\<lambda>j. ''{}''), sign_b64 = (\<lambda>key msg. key @ msg),
       float_of_str = demo_float, int_of_str = demo_int, str_of_float = demo_str_float \<rparr>"

definition new_api :: bitget_api where
  "new_api = \<lparr> API_KEY = ''key'', SECRET_KEY = ''secret'', PASSPHRASE = ''phrase'',
               BASE_URL = ''https://api.bitget.com'', session_open = False,
               requests_made = [], logged = [] \<rparr>"

definition position_entry :: "string \<Rightarrow> string \<Rightarrow> json" where
  "position_entry reported hold_side =
     JObj [(''total'', JStr reported), (''holdSide'', JStr hold_side), (''leverage'', JStr ''10''),
           (''openPriceAvg'', JStr ''50000.5''), (''marginMode'', JStr ''crossed'')]"

definition position_body :: "string \<Rightarrow> string \<Rightarrow> (string \<times> json) list" where
  "position_body reported hold_side =
     [(''code'', JStr ''00000''), (''data'', JList [position_entry reported hold_side])]"

text \<open>Three exchanges: one reports a long position of size 3, one a size of 0, one is
  unreachable.\<close>

definition long_world :: rest_world where
  "long_world = rest_script (\<lambda>k. Replies 200 (JObj (position_body ''3'' ''long''))) 1700"

definition flat_world :: rest_world where
  "flat_world = rest_script (\<lambda>k. Replies 200 (JObj (position_body ''0'' ''long''))) 1700"

definition down_world :: rest_world where
  "down_world = rest_script (\<lambda>k. Raises) 1700"


section \<open>The stale-order sweep, in the specification's words\<close>

text \<open>
  An order's creation time and identifier as \<^verbatim>\<open>cancel_all_pending_orders\<close> reads them;
  an order is stale at \<open>now\<close> when its age, \<open>now\<close> minus creation time, is at least the
  threshold of thirty seconds.  A fetched order is well formed when it is a JSON object
  whose \<^verbatim>\<open>cTime\<close> converts to an integer.
\<close>

definition created_ms :: "rest_world \<Rightarrow> json \<Rightarrow> int" where
  "created_ms w order = (case get_int w order ''cTime'' (JNum 0) of Inr t \<Rightarrow> t | Inl e \<Rightarrow> 0)"

definition order_id_of :: "json \<Rightarrow> json" where
  "order_id_of order = (case dict_get order ''orderId'' JNull of Inr v \<Rightarrow> v | Inl e \<Rightarrow> JNull)"

definition stale :: "rest_world \<Rightarrow> int \<Rightarrow> json \<Rightarrow> bool" where
  "stale w now order = (30000 \<le> now - created_ms w order)"

definition well_formed_order :: "rest_world \<Rightarrow> json \<Rightarrow> bool" where
  "well_formed_order w order =
     (case order of JObj d \<Rightarrow> \<not> isl (get_int w order ''cTime'' (JNum 0)) | _ \<Rightarrow> False)"

text \<open>The orders the sweep cancels, and the JSON body of the cancel request for one.\<close>

definition sweep_targets :: "rest_world \<Rightarrow> int \<Rightarrow> json list \<Rightarrow> json list" where
  "sweep_targets w now orders = filter (\<lambda>order. truthy (order_id_of order) \<and> stale w now order) orders"

definition cancel_json :: "string \<Rightarrow> json \<Rightarrow> json option" where
  "cancel_json symbol order =
     Some (JObj [(''symbol'', JStr symbol), (''orderId'', order_id_of order)])"

text \<open>Every reply of the exchange is a JSON object, or the transport raises.\<close>

definition object_reply :: "http_reply \<Rightarrow> bool" where
  "object_reply r =
     (case r of Raises \<Rightarrow> True | Replies status (JObj d) \<Rightarrow> True | Replies status v \<Rightarrow> False)"

text \<open>The results of the requests numbered \<open>n\<close> and up.\<close>

definition replies_from :: "rest_world \<Rightarrow> nat \<Rightarrow> bitget_api \<Rightarrow> json option list" where
  "replies_from w n api =
     map (\<lambda>i. reply_of (respond w i (requests_made api ! i))) [n..<length (requests_made api)]"

text \<open>
  A reply listing pending orders.  \<open>sweep_world\<close>: at 100 s the exchange lists three orders
  created at 90 s, 69 s and 55 s; it accepts the first cancellation and the transport
  fails on the second.  \<open>unnamed_world\<close>: it lists one order created at 55 s that carries
  no \<^verbatim>\<open>orderId\<close>.
\<close>

definition pending_reply :: "json list \<Rightarrow> (string \<times> json) list" where
  "pending_reply orders =
     [(''code'', JStr ''00000''), (''data'', JObj [(''entrustedList'', JList orders)])]"

definition pending_order :: "string \<Rightarrow> string \<Rightarrow> json" where
  "pending_order oid ctime = JObj [(''orderId'', JStr oid), (''cTime'', JStr ctime)]"

definition three_orders :: "json list" where
  "three_orders = [pending_order ''a'' ''90000'', pending_order ''b'' ''69000'',
                   pending_order ''c'' ''55000'']"

definition sweep_world :: rest_world where
  "sweep_world =
     rest_script (\<lambda>k. if k = 0 then Replies 200 (JObj (pending_reply three_orders))
                      else if k = 1 then Replies 200 (JObj [(''code'', JStr ''00000'')])
                      else Raises) 100000"

definition unnamed_order :: json where
  "unnamed_order = JObj [(''cTime'', JStr ''55000'')]"

definition unnamed_world :: rest_world where
  "unnamed_world =
     rest_script (\<lambda>k. if k = 0 then Replies 200 (JObj (pending_reply [unnamed_order]))
                      else Raises) 100000"

section \<open>bybit\_client.py: BybitClientV2.\_generate\_signature\<close>



section \<open>Channel identities, in the specification's words\<close>

text \<open>
  The specification identifies a channel by three fields: instrument type, channel name
  and instrument id.  \<open>channel_identity\<close> reads them off an element of a
  \<^verbatim>\<open>channels\<close> argument, \<open>identity_key\<close> is the string the code stores for an
  identity.  What a call sequence implies is stated on identities alone: a subscribe adds
  the identities it names and binds them to its callback, an unsubscribe removes them.
\<close>

type_synonym identity = "string \<times> string \<times> string"

definition channel_identity :: "chan_arg \<Rightarrow> identity option" where
  "channel_identity c =
     (case c of
        ChanKey s \<Rightarrow> None
      | ChanDict d \<Rightarrow>
          (case (map_of d ''instType'', map_of d ''channel'', map_of d ''instId'') of
             (Some t, Some ch, Some i) \<Rightarrow> Some (t, ch, i)
           | _ \<Rightarrow> None))"

definition named_identities :: "chan_arg list \<Rightarrow> identity set" where
  "named_identities channels =
     set (concat (map (\<lambda>c. case channel_identity c of None \<Rightarrow> [] | Some x \<Rightarrow> [x]) channels))"

definition identity_key :: "identity \<Rightarrow> string" where
  "identity_key x = (case x of (t, ch, i) \<Rightarrow> t @ ''.'' @ ch @ ''.'' @ i)"

fun implied_identities :: "identity set \<Rightarrow> 'cb call list \<Rightarrow> identity set" where
  "implied_identities S [] = S"
| "implied_identities S (Subscribe cs cb # calls) =
     implied_identities (S \<union> named_identities cs) calls"
| "implied_identities S (Unsubscribe cs # calls) =
     implied_identities (S - named_identities cs) calls"

fun implied_callbacks :: "(identity \<rightharpoonup> 'cb) \<Rightarrow> 'cb call list \<Rightarrow> (identity \<rightharpoonup> 'cb)" where
  "implied_callbacks m [] = m"
| "implied_callbacks m (Subscribe cs cb # calls) =
     implied_callbacks (\<lambda>x. if x \<in> named_identities cs then Some cb else m x) calls"
| "implied_callbacks m (Unsubscribe cs # calls) =
     implied_callbacks (\<lambda>x. if x \<in> named_identities cs then None else m x) calls"

text \<open>Every identity a call sequence names.\<close>

fun called_identities :: "'cb call list \<Rightarrow> identity set" where
  "called_identities [] = {}"
| "called_identities (Subscribe cs cb # calls) = named_identities cs \<union> called_identities calls"
| "called_identities (Unsubscribe cs # calls) = named_identities cs \<union> called_identities calls"

text \<open>The identity of the channel \<open>ticker n\<close>.\<close>

definition ticker_id :: "nat \<Rightarrow> identity" where
  "ticker_id n = (''USDT-FUTURES'', ''ticker'', ''SYM'' @ str_nat n)"

text \<open>Two identities that differ and share a key, and a caller who subscribes the one and
  unsubscribes the other.\<close>

definition candle_a :: chan_arg where
  "candle_a = ChanDict [(''instType'', ''SPOT''), (''channel'', ''candle''),
                        (''instId'', ''1m.BTCUSDT'')]"

definition candle_b :: chan_arg where
  "candle_b = ChanDict [(''instType'', ''SPOT''), (''channel'', ''candle.1m''),
                        (''instId'', ''BTCUSDT'')]"

definition colliding_calls :: "nat call list" where
  "colliding_calls = [Subscribe [candle_a] 1, Unsubscribe [candle_b]]"

definition rebinding_calls :: "nat call list" where
  "rebinding_calls = [Subscribe [candle_a] 1, Subscribe [candle_b] 2]"

text \<open>An exchange that reports a position of size 3 with a leverage of 10.5.\<close>

definition fractional_leverage_body :: "(string \<times> json) list" where
  "fractional_leverage_body =
     [(''code'', JStr ''00000''),
      (''data'', JList [JObj [(''total'', JStr ''3''), (''holdSide'', JStr ''long''),
                              (''leverage'', JStr ''10.5''),
                              (''openPriceAvg'', JStr ''50000.5'')]])]"

definition fractional_leverage_world :: rest_world where
  "fractional_leverage_world = rest_script (\<lambda>k. Replies 200 (JObj fractional_leverage_body)) 1700"

text \<open>
  The fetch request of the sweep, and what makes a request a cancellation of an order:
  a POST to the cancel endpoint whose body names the symbol and the order's id.
\<close>

definition fetch_request :: "rest_world \<Rightarrow> string \<Rightarrow> bitget_api \<Rightarrow> http_request" where
  "fetch_request w symbol api =
     built_request w ''GET'' ''/api/v2/mix/order/orders-pending''
       ([(''productType'', ''USDT-FUTURES''), (''limit'', ''100'')]
        @ (if symbol \<noteq> [] then [(''symbol'', symbol)] else [])) None api"

definition is_cancel_request :: "string \<Rightarrow> string \<Rightarrow> json \<Rightarrow> http_request \<Rightarrow> bool" where
  "is_cancel_request base symbol order req =
     (req_method req = ''POST'' \<and> req_url req = base @ ''/api/v2/mix/order/cancel-order'' \<and>
      req_json req = cancel_json symbol order)"

text \<open>An exchange that lists two orders, the second with a creation time that is not a
  whole number.\<close>

definition fractional_orders :: "json list" where
  "fractional_orders = [pending_order ''a'' ''55000'', pending_order ''b'' ''69000.5'']"

definition fractional_world :: rest_world where
  "fractional_world =
     rest_script (\<lambda>k. if k = 0 then Replies 200 (JObj (pending_reply fractional_orders))
                      else Replies 200 (JObj [(''code'', JStr ''00000'')])) 100000"

section \<open>Verification: decimal numerals\<close>

lemma digit_val_digit_char: "d < 10 \<Longrightarrow> digit_val (digit_char d) = d"
  by (simp add: digit_val_def digit_char_def)

lemma read_nat_snoc: "read_nat (s @ [c]) = 10 * read_nat s + digit_val c"
  by (simp add: read_nat_def)

lemma read_nat_str_nat: "read_nat (str_nat n) = n"
proof (induction n rule: str_nat.induct)
  case (1 n)
  show ?case
  proof (cases "n < 10")
    case True
    then show ?thesis
      by (subst str_nat.simps) (simp add: read_nat_def digit_val_digit_char)
  next
    case False
    then have "read_nat (str_nat n) =
        10 * read_nat (str_nat (n div 10)) + digit_val (digit_char (n mod 10))"
      by (subst str_nat.simps) (simp add: read_nat_snoc)
    also have "\<dots> = 10 * (n div 10) + n mod 10"
      using 1 False by (simp add: digit_val_digit_char)
    finally show ?thesis by simp
  qed
qed

lemma str_nat_inj: "str_nat m = str_nat n \<Longrightarrow> m = n"
  by (metis read_nat_str_nat)

section \<open>Verification: the subscription registry\<close>

lemma send_message_not_capacity: "send_message w m st \<noteq> (Some CapacityError, st')"
  by (simp add: send_message_def Let_def split: option.splits)

lemma authenticate_not_capacity: "authenticate w st \<noteq> (Some CapacityError, st')"
  by (auto simp add: authenticate_def Let_def send_message_not_capacity
      split: option.splits prod.splits)

lemma connect_not_capacity: "connect w p st \<noteq> (Some CapacityError, st')"
  by (auto simp add: connect_def Let_def authenticate_not_capacity
      split: option.splits prod.splits)

lemma channel_key_not_capacity: "channel_key c \<noteq> Inl CapacityError"
  by (simp add: channel_key_def split: chan_arg.splits option.splits)

lemma record_channels_not_capacity: "record_channels cb cs st \<noteq> (Some CapacityError, st')"
  by (induction cs arbitrary: st) (auto simp: channel_key_not_capacity split: sum.splits)

lemma subscribe_within_capacity:
  assumes "\<not> max_channels_per_conn st < card (subscribed_channels st) + length channels"
  shows "subscribe w channels (Some cb) st \<noteq> (Some CapacityError, st')"
proof -
  obtain r1 st1 where
    c: "(if \<not> is_connected st then connect w False st else (None, st)) = (r1, st1)"
    by fastforce
  have r1: "r1 \<noteq> Some CapacityError"
    using c connect_not_capacity [of w False st st1] by (auto split: if_splits)
  obtain r2 st2 where s: "send_message w (OpMsg ''subscribe'' channels) st1 = (r2, st2)"
    by fastforce
  have r2: "r2 \<noteq> Some CapacityError"
    using s send_message_not_capacity [of w _ st1 st2] by auto
  show ?thesis
    using assms c r1 s r2 record_channels_not_capacity [of cb channels st2 st']
    by (cases r1; cases r2) (auto simp: subscribe_def)
qed

lemma subscribe_capacity_iff:
  "(fst (subscribe w channels (Some cb) st) = Some CapacityError) =
     (max_channels_per_conn st < card (subscribed_channels st) + length channels)"
proof (cases "max_channels_per_conn st < card (subscribed_channels st) + length channels")
  case True
  then show ?thesis by (simp add: subscribe_def)
next
  case False
  then show ?thesis
    using subscribe_within_capacity [of st channels w cb]
    by (cases "subscribe w channels (Some cb) st") auto
qed

lemma card_requested_keys: "card (requested_keys channels) \<le> length channels"
proof -
  have "length (concat (map (\<lambda>c. case channel_key c of Inl e \<Rightarrow> [] | Inr k \<Rightarrow> [k]) channels))
          \<le> length channels"
    by (induction channels) (auto split: sum.splits)
  then show ?thesis
    unfolding requested_keys_def using card_length le_trans by blast
qed

lemma send_message_frame: "send_message w m st = (r, st') \<Longrightarrow> same_registry st st'"
  by (auto simp: same_registry_def send_message_def Let_def sleep_def split: option.splits if_splits)

lemma authenticate_frame: "authenticate w st = (r, st') \<Longrightarrow> same_registry st st'"
  unfolding authenticate_def Let_def
  by (auto split: option.splits if_splits prod.splits dest!: send_message_frame
      simp: same_registry_def)

lemma connect_frame: "connect w p st = (r, st') \<Longrightarrow> same_registry st st'"
  unfolding connect_def Let_def
  by (auto split: option.splits if_splits prod.splits dest!: authenticate_frame
      simp: same_registry_def)

lemma requested_keys_Nil: "requested_keys [] = {}"
  by (simp add: requested_keys_def)

lemma requested_keys_Cons:
  "requested_keys (c # cs) =
     (case channel_key c of Inl e \<Rightarrow> requested_keys cs | Inr k \<Rightarrow> insert k (requested_keys cs))"
  by (simp add: requested_keys_def split: sum.splits)

lemma record_channels_registry:
  "record_channels cb cs st = (None, st') \<Longrightarrow>
     subscribed_channels st' = subscribed_channels st \<union> requested_keys cs \<and>
     callbacks st' = (\<lambda>k. if k \<in> requested_keys cs then Some cb else callbacks st k)"
proof (induction cs arbitrary: st)
  case Nil
  then show ?case by (simp add: requested_keys_Nil)
next
  case (Cons c cs)
  then obtain k where k: "channel_key c = Inr k"
    by (cases "channel_key c") auto
  let ?st1 = "st\<lparr>callbacks := (callbacks st)(k \<mapsto> cb),
                   subscribed_channels := insert k (subscribed_channels st)\<rparr>"
  from Cons.prems k have "record_channels cb cs ?st1 = (None, st')" by simp
  from Cons.IH [OF this] show ?case
    by (auto simp: requested_keys_Cons k fun_eq_iff)
qed

lemma remove_channels_registry:
  "remove_channels cs st = (None, st') \<Longrightarrow>
     subscribed_channels st' = subscribed_channels st - requested_keys cs \<and>
     callbacks st' = (\<lambda>k. if k \<in> requested_keys cs then None else callbacks st k)"
proof (induction cs arbitrary: st)
  case Nil
  then show ?case by (simp add: requested_keys_Nil)
next
  case (Cons c cs)
  then obtain k where k: "channel_key c = Inr k"
    by (cases "channel_key c") auto
  let ?st1 = "st\<lparr>callbacks := (callbacks st)(k := None),
                   subscribed_channels := subscribed_channels st - {k}\<rparr>"
  from Cons.prems k have "remove_channels cs ?st1 = (None, st')" by simp
  from Cons.IH [OF this] show ?case
    by (auto simp: requested_keys_Cons k fun_eq_iff)
qed

lemma record_channels_limits:
  "record_channels cb cs st = (r, st') \<Longrightarrow>
     max_channels_per_conn st' = max_channels_per_conn st \<and> sent st' = sent st"
  by (induction cs arbitrary: st) (auto split: sum.splits)

lemma remove_channels_limits:
  "remove_channels cs st = (r, st') \<Longrightarrow>
     max_channels_per_conn st' = max_channels_per_conn st \<and> sent st' = sent st"
  by (induction cs arbitrary: st) (auto split: sum.splits)

lemma subscribe_registry:
  assumes "subscribe w cs (Some cb) st = (None, st')"
  shows "subscribed_channels st' = subscribed_channels st \<union> requested_keys cs \<and>
     callbacks st' = (\<lambda>k. if k \<in> requested_keys cs then Some cb else callbacks st k) \<and>
     max_channels_per_conn st' = max_channels_per_conn st"
proof -
  obtain r1 st1 where
    c: "(if \<not> is_connected st then connect w False st else (None, st)) = (r1, st1)"
    by fastforce
  have f1: "same_registry st st1"
    using c connect_frame [of w False st r1 st1] by (auto simp: same_registry_def split: if_splits)
  obtain r2 st2 where s: "send_message w (OpMsg ''subscribe'' cs) st1 = (r2, st2)"
    by fastforce
  note f2 = send_message_frame [OF s]
  have rc: "record_channels cb cs st2 = (None, st')"
    using assms c s by (cases r1; cases r2) (auto simp: subscribe_def split: if_splits)
  show ?thesis
    using record_channels_registry [OF rc] record_channels_limits [OF rc] f1 f2
    by (simp add: same_registry_def fun_eq_iff)
qed

lemma unsubscribe_registry:
  assumes "unsubscribe w cs st = (None, st')"
  shows "subscribed_channels st' = subscribed_channels st - requested_keys cs \<and>
     callbacks st' = (\<lambda>k. if k \<in> requested_keys cs then None else callbacks st k) \<and>
     max_channels_per_conn st' = max_channels_per_conn st"
proof -
  obtain r2 st2 where s: "send_message w (OpMsg ''unsubscribe'' cs) st = (r2, st2)"
    by fastforce
  note f2 = send_message_frame [OF s]
  have rc: "remove_channels cs st2 = (None, st')"
    using assms s by (cases r2) (auto simp: unsubscribe_def)
  show ?thesis
    using remove_channels_registry [OF rc] remove_channels_limits [OF rc] f2
    by (simp add: same_registry_def fun_eq_iff)
qed

lemma record_channels_ok:
  "\<forall>c \<in> set cs. \<exists>k. channel_key c = Inr k \<Longrightarrow> fst (record_channels cb cs st) = None"
  by (induction cs arbitrary: st) auto

lemma remove_channels_ok:
  "\<forall>c \<in> set cs. \<exists>k. channel_key c = Inr k \<Longrightarrow> fst (remove_channels cs st) = None"
  by (induction cs arbitrary: st) auto

lemma send_message_ok:
  "ws st \<noteq> None \<Longrightarrow> net w (net_ops st) \<noteq> None \<Longrightarrow>
     \<exists>st'. send_message w m st = (None, st') \<and> ws st' = ws st \<and> net_ops st' = Suc (net_ops st)"
  by (auto simp: send_message_def Let_def sleep_def)

lemma subscribe_ok:
  assumes net: "\<forall>k. net w k \<noteq> None"
    and cap: "\<not> max_channels_per_conn st < card (subscribed_channels st) + length cs"
    and keys: "\<forall>c \<in> set cs. \<exists>k. channel_key c = Inr k"
    and sock: "is_connected st \<longrightarrow> ws st \<noteq> None"
  shows "fst (subscribe w cs (Some cb) st) = None"
proof -
  have "\<exists>st1. (if \<not> is_connected st then connect w False st else (None, st)) = (None, st1)
          \<and> ws st1 \<noteq> None"
  proof (cases "is_connected st")
    case True
    then show ?thesis using sock by simp
  next
    case False
    from net have "net w (net_ops st) \<noteq> None" by blast
    then obtain y where "net w (net_ops st) = Some y" by auto
    then show ?thesis using False by (simp add: connect_def Let_def)
  qed
  then obtain st1 where
    c: "(if \<not> is_connected st then connect w False st else (None, st)) = (None, st1)"
      and w1: "ws st1 \<noteq> None"
    by blast
  obtain st2 where s: "send_message w (OpMsg ''subscribe'' cs) st1 = (None, st2)"
    using send_message_ok [OF w1, of w] net by blast
  show ?thesis
    using cap c s record_channels_ok [OF keys, of cb st2] by (simp add: subscribe_def)
qed

lemma channel_key_ticker: "channel_key (ticker n) = Inr (ticker_key n)"
  by (simp add: channel_key_def ticker_def ticker_key_def)

lemma requested_keys_tickers: "requested_keys (map ticker ns) = ticker_key ` set ns"
  by (induction ns) (auto simp: requested_keys_Nil requested_keys_Cons channel_key_ticker)

lemma inj_ticker_key: "inj_on ticker_key A"
  by (auto simp: inj_on_def ticker_key_def dest: str_nat_inj)

lemma world_ok_net: "\<forall>k. net world_ok k \<noteq> None"
  by (simp add: world_ok_def)

lemma full_client_run:
  "subscribe world_ok (map ticker [0..<50]) (Some 7) (init_client demo_cfg 0) = (None, full_client)"
proof -
  have "fst (subscribe world_ok (map ticker [0..<50]) (Some 7) (init_client demo_cfg 0 :: nat client)) = None"
    by (rule subscribe_ok [OF world_ok_net]) (auto simp: init_client_def channel_key_ticker)
  then show ?thesis
    by (simp add: full_client_def prod_eq_iff)
qed

lemma full_client_facts:
  "subscribed_channels full_client = ticker_key ` {0..<50}"
  "max_channels_per_conn full_client = 50"
  "card (subscribed_channels full_client) = 50"
  "card (subscribed_channels full_client \<union> requested_keys [ticker 0]) = 50"
proof -
  show 1: "subscribed_channels full_client = ticker_key ` {0..<50}"
    using subscribe_registry [OF full_client_run]
    by (simp add: requested_keys_tickers init_client_def)
  show "max_channels_per_conn full_client = 50"
    using subscribe_registry [OF full_client_run] by (simp add: init_client_def)
  show 3: "card (subscribed_channels full_client) = 50"
    by (simp add: 1 card_image [OF inj_ticker_key])
  have "requested_keys [ticker 0] \<subseteq> subscribed_channels full_client"
    using requested_keys_tickers [of "[0]"] by (simp add: 1)
  then show "card (subscribed_channels full_client \<union> requested_keys [ticker 0]) = 50"
    by (simp add: Un_absorb2 3)
qed

text \<open>
  C4, as the code has it.  \<^verbatim>\<open>subscribe\<close> raises the capacity error exactly when
  \<^verbatim>\<open>len(subscribed_channels) + len(channels)\<close> exceeds \<^verbatim>\<open>max_channels_per_conn\<close>:
  the requested channels are counted with multiplicity, whether or not they are recorded
  already.  When it raises, the client is left as it was: no callback is bound, no channel
  recorded, no frame sent.  Whenever the number of distinct channels after the call would
  exceed the maximum, the error is raised.
\<close>

theorem subscribe_capacity_error:
  "((fst (subscribe w channels (Some cb) st) = Some CapacityError) =
      (max_channels_per_conn st < card (subscribed_channels st) + length channels)) \<and>
   (fst (subscribe w channels (Some cb) st) = Some CapacityError \<longrightarrow>
      snd (subscribe w channels (Some cb) st) = st) \<and>
   (max_channels_per_conn st < card (subscribed_channels st \<union> requested_keys channels) \<longrightarrow>
      fst (subscribe w channels (Some cb) st) = Some CapacityError)"
proof (intro conjI impI)
  show "(fst (subscribe w channels (Some cb) st) = Some CapacityError) =
      (max_channels_per_conn st < card (subscribed_channels st) + length channels)"
    by (rule subscribe_capacity_iff)
next
  assume "fst (subscribe w channels (Some cb) st) = Some CapacityError"
  then have "max_channels_per_conn st < card (subscribed_channels st) + length channels"
    by (simp add: subscribe_capacity_iff)
  then show "snd (subscribe w channels (Some cb) st) = st"
    by (simp add: subscribe_def)
next
  assume a: "max_channels_per_conn st < card (subscribed_channels st \<union> requested_keys channels)"
  have "card (subscribed_channels st \<union> requested_keys channels)
          \<le> card (subscribed_channels st) + card (requested_keys channels)"
    by (rule card_Un_le)
  also have "\<dots> \<le> card (subscribed_channels st) + length channels"
    using card_requested_keys [of channels] by simp
  finally show "fst (subscribe w channels (Some cb) st) = Some CapacityError"
    using a by (simp add: subscribe_capacity_iff)
qed

theorem subscribe_capacity_error_witness:
  "max_channels_per_conn full_client < card (subscribed_channels full_client) + length [ticker 50] \<and>
   fst (subscribe world_ok [ticker 50] (Some 8) full_client) = Some CapacityError \<and>
   snd (subscribe world_ok [ticker 50] (Some 8) full_client) = full_client"
  using subscribe_capacity_error [of world_ok "[ticker 50]" 8 full_client]
  by (simp add: full_client_facts(2-4))

text \<open>
  C4 as stated fails.  The client holds fifty channels, the maximum.  Subscribing again to
  one of them, to replace its callback, would leave the count at fifty; the call raises
  the capacity error all the same.
\<close>

theorem subscribe_capacity_counterexample:
  "fst (subscribe world_ok [ticker 0] (Some 8) full_client) = Some CapacityError \<and>
   card (subscribed_channels full_client \<union> requested_keys [ticker 0]) = 50 \<and>
   max_channels_per_conn full_client = 50"
  by (simp add: subscribe_capacity_iff full_client_facts(2-4))

lemma perform_registry:
  assumes "perform w c st = (None, st1)"
  shows "subscribed_channels st1 = registry_keys_after (subscribed_channels st) [c] \<and>
         callbacks st1 = registry_bindings_after (callbacks st) [c]"
proof (cases c)
  case (Subscribe cs cb)
  then show ?thesis using assms subscribe_registry [of w cs cb st st1] by simp
next
  case (Unsubscribe cs)
  then show ?thesis using assms unsubscribe_registry [of w cs st st1] by simp
qed

lemma registry_dom_after:
  "dom m = S \<Longrightarrow> dom (registry_bindings_after m [c]) = registry_keys_after S [c]"
  by (cases c) (auto simp: dom_def split: if_splits)

lemma registry_keys_after_Cons:
  "registry_keys_after S (c # calls) = registry_keys_after (registry_keys_after S [c]) calls"
  by (cases c) simp_all

lemma registry_bindings_after_Cons:
  "registry_bindings_after m (c # calls) = registry_bindings_after (registry_bindings_after m [c]) calls"
  by (cases c) simp_all

lemma run_calls_registry:
  "run_calls w calls st = (None, st') \<Longrightarrow>
     subscribed_channels st' = registry_keys_after (subscribed_channels st) calls \<and>
     callbacks st' = registry_bindings_after (callbacks st) calls"
proof (induction calls arbitrary: st)
  case Nil
  then show ?case by simp
next
  case (Cons c calls)
  then obtain st1 where p: "perform w c st = (None, st1)" and r: "run_calls w calls st1 = (None, st')"
    by (cases "perform w c st") (auto split: option.splits)
  show ?case
    using Cons.IH [OF r] perform_registry [OF p]
      registry_keys_after_Cons [of "subscribed_channels st" c calls]
      registry_bindings_after_Cons [of "callbacks st" c calls]
    by simp
qed

lemma registry_dom_after_all:
  "dom m = S \<Longrightarrow> dom (registry_bindings_after m calls) = registry_keys_after S calls"
proof (induction calls arbitrary: m S)
  case Nil
  then show ?case by simp
next
  case (Cons c calls)
  show ?case
    using Cons.IH [OF registry_dom_after [OF Cons.prems, of c]]
      registry_keys_after_Cons [of S c calls] registry_bindings_after_Cons [of m c calls]
    by simp
qed

lemma registry_bindings_after_append:
  "registry_bindings_after m (xs @ ys) = registry_bindings_after (registry_bindings_after m xs) ys"
proof (induction xs arbitrary: m)
  case Nil
  then show ?case by simp
next
  case (Cons c xs)
  show ?case
    using Cons.IH [of "registry_bindings_after m [c]"]
      registry_bindings_after_Cons [of m c "xs @ ys"] registry_bindings_after_Cons [of m c xs]
    by simp
qed

lemma ticker_key_eq: "(ticker_key m = ticker_key n) = (m = n)"
  by (auto simp: ticker_key_def dest: str_nat_inj)

lemma demo_calls_run: "fst (run_calls world_ok demo_calls (init_client demo_cfg 0)) = None"
  by code_simp

lemma send_message_sent:
  "send_message w m st = (r, st') \<Longrightarrow> sent st' = sent st \<or> sent st' = sent st @ [(clock st', message_time st', m)]"
  by (auto simp: send_message_def Let_def sleep_def split: option.splits if_splits)

lemma authenticate_subscribe_frames:
  "authenticate w st = (r, st') \<Longrightarrow> subscribe_frames st' = subscribe_frames st"
  unfolding authenticate_def Let_def
  by (auto split: option.splits if_splits prod.splits dest!: send_message_sent
      simp: subscribe_frames_def is_subscribe_frame_def)

lemma connect_subscribe_frames:
  "connect w p st = (r, st') \<Longrightarrow> subscribe_frames st' = subscribe_frames st"
  unfolding connect_def Let_def
  by (auto split: option.splits if_splits prod.splits dest!: authenticate_subscribe_frames
      simp: subscribe_frames_def)

lemma close_socket_frame:
  "close_socket w st = (r, st') \<Longrightarrow> same_registry st st' \<and> subscribe_frames st' = subscribe_frames st"
  by (auto simp: close_socket_def same_registry_def subscribe_frames_def split: option.splits)

lemma reconnect_try_raises:
  assumes "subscribed_channels st \<noteq> {}"
  shows "\<exists>e st1. reconnect_try w st = (Some e, st1) \<and> same_registry st st1 \<and>
           subscribe_frames st1 = subscribe_frames st"
proof -
  obtain r0 st0 where c0: "close_socket w st = (r0, st0)" by fastforce
  note f0 = close_socket_frame [OF c0]
  show ?thesis
  proof (cases r0)
    case (Some e)
    then show ?thesis using c0 f0 by (simp add: reconnect_try_def)
  next
    case None
    obtain r1 st1 where c1: "connect w (card (subscribed_channels st0) > 0) st0 = (r1, st1)"
      by fastforce
    note f1 = connect_frame [OF c1] connect_subscribe_frames [OF c1]
    have reg: "same_registry st st1" "subscribe_frames st1 = subscribe_frames st"
      using f0 f1 by (simp_all add: same_registry_def)
    show ?thesis
    proof (cases r1)
      case (Some e)
      then show ?thesis using None c0 c1 reg by (simp add: reconnect_try_def)
    next
      case n1: None
      have "subscribed_channels st1 \<noteq> {}"
        using assms reg by (simp add: same_registry_def)
      then show ?thesis
        using None n1 c0 c1 reg by (simp add: reconnect_try_def subscribe_def)
    qed
  qed
qed

lemma reconnect_retries:
  "subscribed_channels st \<noteq> {} \<Longrightarrow>
     \<exists>st'. reconnect fuel w st = Inl st' \<and> same_registry st st' \<and>
           subscribe_frames st' = subscribe_frames st"
proof (induction fuel arbitrary: st)
  case 0
  then show ?case by (simp add: same_registry_def)
next
  case (Suc fuel)
  let ?st0 = "st\<lparr>is_connected := False\<rparr>"
  have "subscribed_channels ?st0 \<noteq> {}" using Suc.prems by simp
  from reconnect_try_raises [OF this, of w] obtain e st1 where
    t: "reconnect_try w ?st0 = (Some e, st1)" and r1: "same_registry ?st0 st1"
    and s1: "subscribe_frames st1 = subscribe_frames ?st0"
    by blast
  have "subscribed_channels (sleep 5 st1) \<noteq> {}"
    using Suc.prems r1 by (simp add: same_registry_def sleep_def)
  from Suc.IH [OF this] obtain st' where
    r: "reconnect fuel w (sleep 5 st1) = Inl st'" and r2: "same_registry (sleep 5 st1) st'"
    and s2: "subscribe_frames st' = subscribe_frames (sleep 5 st1)"
    by blast
  show ?case
    using t r r1 r2 s1 s2 by (simp add: same_registry_def sleep_def subscribe_frames_def)
qed

text \<open>
  C1 on the code.  With at least one channel recorded, every attempt of \<^verbatim>\<open>_reconnect\<close>
  ends in an exception, whatever the transport does: closing or connecting fails, or the
  replay call \<^verbatim>\<open>self.subscribe(list(self.subscribed_channels))\<close> raises TypeError for
  its missing \<^verbatim>\<open>callback\<close>.  So after any number of attempts the method is still
  retrying, it has sent no subscribe frame, and the registry is what it was before.
\<close>

theorem reconnect_never_replays:
  "subscribed_channels st \<noteq> {} \<Longrightarrow>
     (\<exists>st'. reconnect fuel w st = Inl st' \<and>
            subscribe_frames st' = subscribe_frames st \<and>
            subscribed_channels st' = subscribed_channels st \<and>
            callbacks st' = callbacks st)"
  using reconnect_retries [of st fuel w] by (auto simp: same_registry_def)

lemma one_channel_client_run:
  "subscribe world_ok [ticker 2] (Some 7) (init_client demo_cfg 0) = (None, one_channel_client)"
proof -
  have "fst (subscribe world_ok [ticker 2] (Some 7) (init_client demo_cfg 0 :: nat client)) = None"
    by (rule subscribe_ok [OF world_ok_net]) (auto simp: init_client_def channel_key_ticker)
  then show ?thesis
    by (simp add: one_channel_client_def prod_eq_iff)
qed

lemma one_channel_client_channels: "subscribed_channels one_channel_client = {ticker_key 2}"
  using subscribe_registry [OF one_channel_client_run] requested_keys_tickers [of "[2]"]
  by (simp add: init_client_def)

theorem reconnect_never_replays_witness:
  "subscribed_channels one_channel_client \<noteq> {} \<and>
   (\<exists>st'. reconnect 3 world_ok one_channel_client = Inl st' \<and>
          subscribe_frames st' = subscribe_frames one_channel_client \<and>
          subscribed_channels st' = {ticker_key 2})"
  using reconnect_never_replays [of one_channel_client 3 world_ok]
  by (auto simp: one_channel_client_channels)
























lemma request_unfold:
  "request w method endpoint params data api =
     (let req = built_request w method endpoint params data api;
          api2 = api\<lparr>session_open := True, requests_made := requests_made api @ [req]\<rparr>
      in case respond w (length (requests_made api)) req of
           Raises \<Rightarrow> (None, api2\<lparr>logged := logged api2 @ [LogError ''Request error'']\<rparr>)
         | Replies status response_data \<Rightarrow>
             (Some response_data,
              api2\<lparr>logged := logged api2 @
                      (LogInfo ''API'' # (if status \<noteq> 200 then [LogError ''API Error''] else []))\<rparr>))"
  by (auto simp: request_def built_request_def Let_def split: http_reply.splits)

lemma request_result:
  "request w method endpoint params data api = (r, api') \<Longrightarrow>
     r = reply_of (respond w (length (requests_made api))
                     (built_request w method endpoint params data api)) \<and>
     requests_made api' = requests_made api @ [built_request w method endpoint params data api]"
  unfolding request_unfold Let_def
  by (cases "respond w (length (requests_made api))
                (built_request w method endpoint params data api)")
     (auto simp: reply_of_def)

lemma request_logs:
  "respond w (length (requests_made api)) (built_request w method endpoint params data api) = Raises
     \<Longrightarrow> logged (snd (request w method endpoint params data api))
           = logged api @ [LogError ''Request error'']"
  unfolding request_unfold Let_def by simp

lemma get_position_eq:
  "fst (get_position w symbol api) =
     position_of_response w symbol (clock_ms w (Suc (length (requests_made api))))
       (reply_of (position_reply w symbol api))"
proof -
  obtain r api' where
    q: "request w ''GET'' ''/api/v2/mix/position/single-position''
          [(''symbol'', symbol), (''marginMode'', ''crossed''),
           (''productType'', ''USDT-FUTURES''), (''marginCoin'', ''USDT'')] None api = (r, api')"
    by fastforce
  from request_result [OF q] show ?thesis
    using q by (simp add: get_position_def position_reply_def position_request_def)
qed

lemma position_of_ok_response:
  assumes "map_of kv ''code'' = Some (JStr ''00000'')" and "map_of kv ''data'' = Some data"
    and "truthy data" and "kv \<noteq> []"
  shows "position_of_response w symbol now (Some (JObj kv)) =
           bind_err (get_float w (position_data_of data) ''total'') (\<lambda>total.
             if total > 0
             then bind_err (make_position w symbol now (position_data_of data)) (\<lambda>p. Inr (Some p))
             else Inr None)"
  using assms
  by (simp add: position_of_response_def truthy_def dict_get_def bind_err_def Let_def)

lemma bind_err_Inr: "bind_err m f = Inr y \<Longrightarrow> \<exists>x. m = Inr x \<and> f x = Inr y"
  by (cases m) (auto simp: bind_err_def)

lemma bind_err_ok: "\<not> isl m \<Longrightarrow> (\<And>x. \<not> isl (f x)) \<Longrightarrow> \<not> isl (bind_err m f)"
  by (cases m) (auto simp: bind_err_def)

lemma get_float_dict: "get_float w pd k = Inr x \<Longrightarrow> \<exists>d. pd = JObj d"
  by (cases pd) (auto simp: get_float_def dict_get_def bind_err_def)

lemma make_position_ok:
  assumes ok: "numeric_fields_ok w pd" and t: "get_float w pd ''total'' = Inr reported"
  shows "\<exists>p. make_position w symbol now pd = Inr p"
proof -
  obtain d where d: "pd = JObj d" using get_float_dict [OF t] by blast
  have g: "\<not> isl (dict_get pd k dflt)" for k dflt
    by (simp add: d dict_get_def split: option.splits)
  have "\<not> isl (make_position w symbol now pd)"
    unfolding make_position_def
    using ok by (intro bind_err_ok g) (simp_all add: numeric_fields_ok_def)
  then show ?thesis by (cases "make_position w symbol now pd") auto
qed

lemma demo_world_replies:
  "position_reply long_world symbol api = Replies 200 (JObj (position_body ''3'' ''long''))"
  "position_reply flat_world symbol api = Replies 200 (JObj (position_body ''0'' ''long''))"
  "position_reply down_world symbol api = Raises"
  by (simp_all add: position_reply_def long_world_def flat_world_def down_world_def rest_script_def)

lemma position_body_fields:
  "map_of (position_body t h) ''code'' = Some (JStr ''00000'')"
  "map_of (position_body t h) ''data'' = Some (JList [position_entry t h])"
  "truthy (JList [position_entry t h])"
  "position_data_of (JList [position_entry t h]) = position_entry t h"
  by (simp_all add: position_body_def truthy_def position_data_of_def)

lemmas demo_eval =
  get_float_def get_int_def dict_get_def position_entry_def bind_err_def py_float_def
  py_int_of_def long_world_def flat_world_def rest_script_def demo_float_def demo_int_def
  digits_only_def read_nat_def digit_val_def

lemma demo_entry_facts:
  "get_float long_world (position_entry ''3'' ''long'') ''total'' = Inr 3"
  "get_float flat_world (position_entry ''0'' ''long'') ''total'' = Inr 0"
  "numeric_fields_ok long_world (position_entry ''3'' ''long'')"
  "dict_get (position_entry ''3'' ''long'') ''holdSide'' JNull = Inr (JStr ''long'')"
  by (simp_all add: demo_eval numeric_fields_ok_def)

text \<open>
  C10.  \<^verbatim>\<open>get_position\<close> returns null when the request fails at transport level, when
  the reply's code is not \<^verbatim>\<open>'00000'\<close>, when the reply carries no data, and when the
  reported size is zero: a failed query and a flat position give the caller the same value.
\<close>

theorem get_position_null_is_ambiguous:
  "(position_reply w symbol api = Raises \<longrightarrow> fst (get_position w symbol api) = Inr None) \<and>
   (position_reply w symbol api = Replies status (JObj kv) \<and>
      map_of kv ''code'' \<noteq> Some (JStr ''00000'') \<longrightarrow>
        fst (get_position w symbol api) = Inr None) \<and>
   (position_reply w symbol api = Replies status (JObj kv) \<and>
      (map_of kv ''data'' = None \<or> (\<exists>d. map_of kv ''data'' = Some d \<and> \<not> truthy d)) \<longrightarrow>
        fst (get_position w symbol api) = Inr None) \<and>
   (position_reply w symbol api = Replies status (JObj kv) \<and>
      map_of kv ''code'' = Some (JStr ''00000'') \<and> map_of kv ''data'' = Some data \<and>
      truthy data \<and> get_float w (position_data_of data) ''total'' = Inr 0 \<longrightarrow>
        fst (get_position w symbol api) = Inr None) \<and>
   (position_reply w1 symbol api = Raises \<and>
    position_reply w2 symbol api = Replies status (JObj kv) \<and>
      map_of kv ''code'' = Some (JStr ''00000'') \<and> map_of kv ''data'' = Some data \<and>
      truthy data \<and> get_float w2 (position_data_of data) ''total'' = Inr 0 \<longrightarrow>
        fst (get_position w1 symbol api) = fst (get_position w2 symbol api))"
proof -
  have down: "fst (get_position w symbol api) = Inr None"
    if "position_reply w symbol api = Raises" for w :: rest_world
    using that by (simp add: get_position_eq reply_of_def position_of_response_def)
  have code: "fst (get_position w symbol api) = Inr None"
    if "position_reply w symbol api = Replies status (JObj kv) \<and>
        map_of kv ''code'' \<noteq> Some (JStr ''00000'')"
    using that
    by (auto simp: get_position_eq reply_of_def position_of_response_def dict_get_def
        bind_err_def split: option.splits)
  have nodata: "fst (get_position w symbol api) = Inr None"
    if "position_reply w symbol api = Replies status (JObj kv) \<and>
        (map_of kv ''data'' = None \<or> (\<exists>d. map_of kv ''data'' = Some d \<and> \<not> truthy d))"
    using that
    by (auto simp: get_position_eq reply_of_def position_of_response_def dict_get_def
        bind_err_def truthy_def split: option.splits)
  have flat: "fst (get_position w symbol api) = Inr None"
    if "position_reply w symbol api = Replies status (JObj kv) \<and>
      map_of kv ''code'' = Some (JStr ''00000'') \<and> map_of kv ''data'' = Some data \<and>
      truthy data \<and> get_float w (position_data_of data) ''total'' = Inr 0" for w :: rest_world
    using that
    by (auto simp: get_position_eq reply_of_def position_of_response_def dict_get_def
        bind_err_def truthy_def Let_def split: option.splits)
  show ?thesis
  proof (intro conjI impI)
    assume "position_reply w symbol api = Raises"
    then show "fst (get_position w symbol api) = Inr None" by (rule down)
  next
    assume "position_reply w symbol api = Replies status (JObj kv) \<and>
        map_of kv ''code'' \<noteq> Some (JStr ''00000'')"
    then show "fst (get_position w symbol api) = Inr None" by (rule code)
  next
    assume "position_reply w symbol api = Replies status (JObj kv) \<and>
        (map_of kv ''data'' = None \<or> (\<exists>d. map_of kv ''data'' = Some d \<and> \<not> truthy d))"
    then show "fst (get_position w symbol api) = Inr None" by (rule nodata)
  next
    assume "position_reply w symbol api = Replies status (JObj kv) \<and>
      map_of kv ''code'' = Some (JStr ''00000'') \<and> map_of kv ''data'' = Some data \<and>
      truthy data \<and> get_float w (position_data_of data) ''total'' = Inr 0"
    then show "fst (get_position w symbol api) = Inr None" by (rule flat)
  next
    assume a: "position_reply w1 symbol api = Raises \<and>
      position_reply w2 symbol api = Replies status (JObj kv) \<and>
      map_of kv ''code'' = Some (JStr ''00000'') \<and> map_of kv ''data'' = Some data \<and>
      truthy data \<and> get_float w2 (position_data_of data) ''total'' = Inr 0"
    have "fst (get_position w1 symbol api) = Inr None" using a by (intro down) simp
    moreover have "fst (get_position w2 symbol api) = Inr None" using a by (intro flat) simp
    ultimately show "fst (get_position w1 symbol api) = fst (get_position w2 symbol api)"
      by simp
  qed
qed

theorem get_position_null_is_ambiguous_witness:
  "position_reply down_world ''BTCUSDT'' new_api = Raises \<and>
   position_reply flat_world ''BTCUSDT'' new_api = Replies 200 (JObj (position_body ''0'' ''long'')) \<and>
   fst (get_position down_world ''BTCUSDT'' new_api) = Inr None \<and>
   fst (get_position flat_world ''BTCUSDT'' new_api) = Inr None"
  using get_position_null_is_ambiguous
    [of down_world "''BTCUSDT''" new_api 200 "position_body ''0'' ''long''"
        "JList [position_entry ''0'' ''long'']" down_world flat_world]
    demo_world_replies position_body_fields demo_entry_facts(2)
  by auto

lemma request_down:
  "\<forall>req. respond w (length (requests_made api)) req = Raises \<Longrightarrow>
     fst (request w method endpoint params data api) = None \<and>
     logged (snd (request w method endpoint params data api))
       = logged api @ [LogError ''Request error'']"
  unfolding request_unfold Let_def by simp

lemma request_up:
  "\<forall>req. respond w (length (requests_made api)) req = Replies status r \<Longrightarrow>
     fst (request w method endpoint params data api) = Some r"
  unfolding request_unfold Let_def by simp

text \<open>
  C6, as the code has it.  When the transport raises on the next request, each of the six
  operations that hand back \<^verbatim>\<open>_request\<close>'s result returns null and so does
  \<^verbatim>\<open>get_position\<close>; the failure is logged as an error and nothing is raised
  (\<^verbatim>\<open>place_order\<close> and \<^verbatim>\<open>place_tpsl_order\<close> are taken with a price that converts:
  a price that does not is rejected before any request is made).  When the transport
  answers, the six operations return the parsed response; \<^verbatim>\<open>get_position\<close> returns, not
  the response, but the Position it derives from it, or null.
\<close>

theorem gateway_transport_results:
  "((\<forall>req. respond w (length (requests_made api)) req = Raises) \<longrightarrow>
      (place_order_body w symbol side' trade_side size' margin_coin order_type price
           trigger_price = Inr body \<longrightarrow>
         fst (place_order w symbol side' trade_side size' margin_coin order_type price
                trigger_price api) = Inr None) \<and>
      (normalize_price w tp = Inr trigger \<longrightarrow>
         fst (place_tpsl_order w symbol plan_type tp hold_side size' execute_price api)
           = Inr None) \<and>
      fst (close_position w symbol margin_coin api) = None \<and>
      fst (cancel_order w symbol order_id api) = None \<and>
      fst (get_order_detail w symbol oid api) = None \<and>
      fst (get_pending_orders w sym_opt status_opt limit api) = None \<and>
      fst (get_position w symbol api) = Inr None \<and>
      logged (snd (close_position w symbol margin_coin api))
        = logged api @ [LogError ''Request error''] \<and>
      logged (snd (get_position w symbol api)) = logged api @ [LogError ''Request error'']) \<and>
   ((\<forall>req. respond w (length (requests_made api)) req = Replies status r) \<longrightarrow>
      (place_order_body w symbol side' trade_side size' margin_coin order_type price
           trigger_price = Inr body \<longrightarrow>
         fst (place_order w symbol side' trade_side size' margin_coin order_type price
                trigger_price api) = Inr (Some r)) \<and>
      (normalize_price w tp = Inr trigger \<longrightarrow>
         fst (place_tpsl_order w symbol plan_type tp hold_side size' execute_price api)
           = Inr (Some r)) \<and>
      fst (close_position w symbol margin_coin api) = Some r \<and>
      fst (cancel_order w symbol order_id api) = Some r \<and>
      fst (get_order_detail w symbol oid api) = Some r \<and>
      fst (get_pending_orders w sym_opt status_opt limit api) = Some r \<and>
      fst (get_position w symbol api) =
        position_of_response w symbol (clock_ms w (Suc (length (requests_made api)))) (Some r))"
proof (intro conjI impI)
  assume down: "\<forall>req. respond w (length (requests_made api)) req = Raises"
  note d = request_down [OF down]
  show "fst (place_order w symbol side' trade_side size' margin_coin order_type price
                trigger_price api) = Inr None"
    if "place_order_body w symbol side' trade_side size' margin_coin order_type price
           trigger_price = Inr body"
    using that d [of "''POST''" "''/api/v2/mix/order/place-order''" "[]" "Some (JObj body)"]
    by (simp add: place_order_def split_beta)
  show "fst (place_tpsl_order w symbol plan_type tp hold_side size' execute_price api) = Inr None"
    if "normalize_price w tp = Inr trigger"
    using that d by (simp add: place_tpsl_order_def split_beta Let_def)
  show "fst (close_position w symbol margin_coin api) = None"
    using d by (simp add: close_position_def)
  show "fst (cancel_order w symbol order_id api) = None"
    using d by (simp add: cancel_order_def)
  show "fst (get_order_detail w symbol oid api) = None"
    using d by (simp add: get_order_detail_def)
  show "fst (get_pending_orders w sym_opt status_opt limit api) = None"
    using d by (simp add: get_pending_orders_def)
  show "fst (get_position w symbol api) = Inr None"
    using down
    by (simp add: get_position_eq position_reply_def reply_of_def position_of_response_def)
  show "logged (snd (close_position w symbol margin_coin api))
        = logged api @ [LogError ''Request error'']"
    using d by (simp add: close_position_def)
  show "logged (snd (get_position w symbol api)) = logged api @ [LogError ''Request error'']"
    using d by (simp add: get_position_def split_beta Let_def)
next
  assume up: "\<forall>req. respond w (length (requests_made api)) req = Replies status r"
  note u = request_up [OF up]
  show "fst (place_order w symbol side' trade_side size' margin_coin order_type price
                trigger_price api) = Inr (Some r)"
    if "place_order_body w symbol side' trade_side size' margin_coin order_type price
           trigger_price = Inr body"
    using that u [of "''POST''" "''/api/v2/mix/order/place-order''" "[]" "Some (JObj body)"]
    by (simp add: place_order_def split_beta)
  show "fst (place_tpsl_order w symbol plan_type tp hold_side size' execute_price api)
           = Inr (Some r)"
    if "normalize_price w tp = Inr trigger"
    using that u by (simp add: place_tpsl_order_def split_beta Let_def)
  show "fst (close_position w symbol margin_coin api) = Some r"
    using u by (simp add: close_position_def)
  show "fst (cancel_order w symbol order_id api) = Some r"
    using u by (simp add: cancel_order_def)
  show "fst (get_order_detail w symbol oid api) = Some r"
    using u by (simp add: get_order_detail_def)
  show "fst (get_pending_orders w sym_opt status_opt limit api) = Some r"
    using u by (simp add: get_pending_orders_def)
  show "fst (get_position w symbol api) =
        position_of_response w symbol (clock_ms w (Suc (length (requests_made api)))) (Some r)"
    using up by (simp add: get_position_eq position_reply_def reply_of_def)
qed

lemma demo_world_down: "\<forall>req. respond down_world k req = Raises"
  by (simp add: down_world_def rest_script_def)

lemma demo_world_up:
  "\<forall>req. respond flat_world k req = Replies 200 (JObj (position_body ''0'' ''long''))"
  by (simp add: flat_world_def rest_script_def)

lemma market_order_body:
  "place_order_body w ''BTCUSDT'' ''buy'' ''open'' ''1'' ''USDT'' ''market'' None None =
     Inr [(''symbol'', JStr ''BTCUSDT''), (''productType'', JStr ''USDT-FUTURES''),
          (''marginMode'', JStr ''crossed''), (''marginCoin'', JStr ''USDT''),
          (''side'', JStr ''buy''), (''tradeSide'', JStr ''open''),
          (''orderType'', JStr ''market''), (''size'', JStr ''1'')]"
  by (simp add: place_order_body_def normalize_opt_def str_truthy_def bind_err_def
      order_type_mapping_def)

lemma flat_world_position: "fst (get_position flat_world ''BTCUSDT'' new_api) = Inr None"
  using position_of_ok_response
    [OF position_body_fields(1) position_body_fields(2) position_body_fields(3),
     of "''0''" "''long''" flat_world "''BTCUSDT''"]
  by (simp add: get_position_eq demo_world_replies reply_of_def position_body_fields(4)
      demo_entry_facts bind_err_def position_body_def)

theorem gateway_transport_results_witness:
  "(\<forall>req. respond down_world (length (requests_made new_api)) req = Raises) \<and>
   fst (place_order down_world ''BTCUSDT'' ''buy'' ''open'' ''1'' ''USDT'' ''market'' None None
          new_api) = Inr None \<and>
   fst (cancel_order down_world ''BTCUSDT'' (JStr ''42'') new_api) = None \<and>
   fst (get_position down_world ''BTCUSDT'' new_api) = Inr None \<and>
   (\<forall>req. respond flat_world (length (requests_made new_api)) req
           = Replies 200 (JObj (position_body ''0'' ''long''))) \<and>
   fst (place_order flat_world ''BTCUSDT'' ''buy'' ''open'' ''1'' ''USDT'' ''market'' None None
          new_api) = Inr (Some (JObj (position_body ''0'' ''long''))) \<and>
   fst (cancel_order flat_world ''BTCUSDT'' (JStr ''42'') new_api)
     = Some (JObj (position_body ''0'' ''long''))"
proof -
  note down = gateway_transport_results
    [where w = down_world and api = new_api and symbol = "''BTCUSDT''" and side' = "''buy''"
       and trade_side = "''open''" and size' = "''1''" and margin_coin = "''USDT''"
       and order_type = "''market''" and price = None and trigger_price = None
       and order_id = "JStr ''42''", THEN conjunct1, THEN mp, OF demo_world_down]
  note up = gateway_transport_results
    [where w = flat_world and api = new_api and symbol = "''BTCUSDT''" and side' = "''buy''"
       and trade_side = "''open''" and size' = "''1''" and margin_coin = "''USDT''"
       and order_type = "''market''" and price = None and trigger_price = None
       and order_id = "JStr ''42''" and status = 200
       and r = "JObj (position_body ''0'' ''long'')", THEN conjunct2, THEN mp,
     OF demo_world_up]
  show ?thesis
    using down up market_order_body demo_world_down demo_world_up by simp
qed

text \<open>
  C6 as stated fails for \<^verbatim>\<open>get_position\<close>.  The exchange answers the query with a parsed
  response reporting size 0; the operation returns null, not the response.
\<close>

theorem gateway_get_position_counterexample:
  "position_reply flat_world ''BTCUSDT'' new_api
     = Replies 200 (JObj (position_body ''0'' ''long'')) \<and>
   fst (get_position flat_world ''BTCUSDT'' new_api) = Inr None"
  by (simp add: demo_world_replies flat_world_position)

















lemma response_ok_object: "object_reply r \<Longrightarrow> \<not> isl (response_ok (reply_of r))"
  by (auto simp: object_reply_def response_ok_def reply_of_def dict_get_def bind_err_def
      split: http_reply.splits json.splits option.splits)

lemma replies_from_snoc_request:
  assumes "requests_made api' = (requests_made api @ [req]) @ new"
  shows "replies_from w (length (requests_made api)) api' =
           reply_of (respond w (length (requests_made api)) req)
             # replies_from w (Suc (length (requests_made api))) api'"
proof -
  let ?n = "length (requests_made api)"
  have lt: "?n < length (requests_made api')" using assms by simp
  have nth: "requests_made api' ! ?n = req" using assms by (simp add: nth_append)
  show ?thesis
    unfolding replies_from_def using lt nth by (simp add: upt_conv_Cons)
qed

lemma well_formed_order_reads:
  "well_formed_order w order \<Longrightarrow>
     dict_get order ''orderId'' JNull = Inr (order_id_of order) \<and>
     get_int w order ''cTime'' (JNum 0) = Inr (created_ms w order)"
  by (cases order)
     (auto simp: well_formed_order_def order_id_of_def created_ms_def dict_get_def
        split: option.splits sum.splits)

lemma pending_reply_fields:
  "map_of (pending_reply orders) ''code'' = Some (JStr ''00000'')"
  "map_of (pending_reply orders) ''data'' = Some (JObj [(''entrustedList'', JList orders)])"
  "map_of [(''entrustedList'', JList orders)] ''entrustedList'' = Some (JList orders)"
  by (simp_all add: pending_reply_def)








lemma channel_key_identity:
  "channel_key c = Inr k \<longleftrightarrow> (\<exists>x. channel_identity c = Some x \<and> identity_key x = k)"
  by (auto simp: channel_key_def channel_identity_def identity_key_def
      split: chan_arg.splits option.splits)

lemma named_identities_Nil: "named_identities [] = {}"
  by (simp add: named_identities_def)

lemma named_identities_Cons:
  "named_identities (c # cs) =
     (case channel_identity c of None \<Rightarrow> named_identities cs
      | Some x \<Rightarrow> insert x (named_identities cs))"
  by (simp add: named_identities_def split: option.splits)

lemma named_identities_iff:
  "x \<in> named_identities cs \<longleftrightarrow> (\<exists>c \<in> set cs. channel_identity c = Some x)"
proof (induction cs)
  case Nil
  then show ?case by (simp add: named_identities_Nil)
next
  case (Cons c cs)
  show ?case
  proof (cases "channel_identity c")
    case None
    then show ?thesis using Cons by (simp add: named_identities_Cons)
  next
    case (Some y)
    then show ?thesis using Cons by (auto simp add: named_identities_Cons)
  qed
qed

lemma requested_keys_iff:
  "k \<in> requested_keys cs \<longleftrightarrow> (\<exists>c \<in> set cs. channel_key c = Inr k)"
  by (induction cs) (auto simp: requested_keys_Nil requested_keys_Cons split: sum.splits)

lemma requested_keys_identities:
  "requested_keys cs = identity_key ` named_identities cs"
proof (rule set_eqI)
  fix k
  have "k \<in> requested_keys cs \<longleftrightarrow>
          (\<exists>c \<in> set cs. \<exists>x. channel_identity c = Some x \<and> identity_key x = k)"
    unfolding requested_keys_iff channel_key_identity ..
  also have "\<dots> \<longleftrightarrow> (\<exists>x. x \<in> named_identities cs \<and> identity_key x = k)"
    unfolding named_identities_iff by blast
  also have "\<dots> \<longleftrightarrow> k \<in> identity_key ` named_identities cs"
    by blast
  finally show "k \<in> requested_keys cs \<longleftrightarrow> k \<in> identity_key ` named_identities cs" .
qed

lemma subscribe_step_identities:
  assumes "inj_on identity_key (S \<union> N)"
  shows "identity_key ` S - identity_key ` N = identity_key ` (S - N)"
  using assms by (auto simp: inj_on_def)

lemma key_in_image:
  assumes "inj_on identity_key A" "x \<in> A" "N \<subseteq> A"
  shows "identity_key x \<in> identity_key ` N \<longleftrightarrow> x \<in> N"
  using assms by (auto simp: inj_on_def)

lemma implied_identities_subset:
  "implied_identities S calls \<subseteq> S \<union> called_identities calls"
proof (induction calls arbitrary: S)
  case Nil
  then show ?case by simp
next
  case (Cons c calls)
  show ?case
  proof (cases c)
    case (Subscribe cs cb)
    then show ?thesis using Cons.IH [of "S \<union> named_identities cs"] by auto
  next
    case (Unsubscribe cs)
    then show ?thesis using Cons.IH [of "S - named_identities cs"] by auto
  qed
qed

lemma run_calls_identities:
  assumes "run_calls w calls st = (None, st')"
    and "subscribed_channels st = identity_key ` S"
    and "\<forall>x \<in> U. callbacks st (identity_key x) = m x"
    and "inj_on identity_key U" and "S \<subseteq> U" and "called_identities calls \<subseteq> U"
  shows "subscribed_channels st' = identity_key ` implied_identities S calls \<and>
         (\<forall>x \<in> U. callbacks st' (identity_key x) = implied_callbacks m calls x)"
  using assms
proof (induction calls arbitrary: st S m)
  case Nil
  then show ?case by simp
next
  case (Cons c calls)
  from Cons.prems(1) obtain st1 where
    p: "perform w c st = (None, st1)" and r: "run_calls w calls st1 = (None, st')"
    by (cases "perform w c st") (auto split: option.splits)
  show ?case
  proof (cases c)
    case (Subscribe cs cb)
    let ?N = "named_identities cs"
    have N: "?N \<subseteq> U" and rest: "called_identities calls \<subseteq> U"
      using Cons.prems(6) Subscribe by auto
    have reg: "subscribed_channels st1 = subscribed_channels st \<union> requested_keys cs"
      "callbacks st1 = (\<lambda>k. if k \<in> requested_keys cs then Some cb else callbacks st k)"
      using p Subscribe subscribe_registry [of w cs cb st st1] by simp_all
    have 1: "subscribed_channels st1 = identity_key ` (S \<union> ?N)"
      using reg(1) Cons.prems(2) by (simp add: requested_keys_identities image_Un)
    have 2: "\<forall>x \<in> U. callbacks st1 (identity_key x) = (if x \<in> ?N then Some cb else m x)"
    proof
      fix x assume x: "x \<in> U"
      have "identity_key x \<in> identity_key ` ?N \<longleftrightarrow> x \<in> ?N"
        using key_in_image [OF Cons.prems(4) x N] .
      then show "callbacks st1 (identity_key x) = (if x \<in> ?N then Some cb else m x)"
        using reg(2) Cons.prems(3) x by (simp add: requested_keys_identities)
    qed
    have 3: "S \<union> ?N \<subseteq> U" using Cons.prems(5) N by simp
    show ?thesis
      using Cons.IH [OF r 1 2 Cons.prems(4) 3 rest] Subscribe by simp
  next
    case (Unsubscribe cs)
    let ?N = "named_identities cs"
    have N: "?N \<subseteq> U" and rest: "called_identities calls \<subseteq> U"
      using Cons.prems(6) Unsubscribe by auto
    have reg: "subscribed_channels st1 = subscribed_channels st - requested_keys cs"
      "callbacks st1 = (\<lambda>k. if k \<in> requested_keys cs then None else callbacks st k)"
      using p Unsubscribe unsubscribe_registry [of w cs st st1] by simp_all
    have "inj_on identity_key (S \<union> ?N)"
      using Cons.prems(4,5) N by (auto intro: inj_on_subset)
    then have 1: "subscribed_channels st1 = identity_key ` (S - ?N)"
      using reg(1) Cons.prems(2) subscribe_step_identities [of S ?N]
      by (simp add: requested_keys_identities)
    have 2: "\<forall>x \<in> U. callbacks st1 (identity_key x) = (if x \<in> ?N then None else m x)"
    proof
      fix x assume x: "x \<in> U"
      have "identity_key x \<in> identity_key ` ?N \<longleftrightarrow> x \<in> ?N"
        using key_in_image [OF Cons.prems(4) x N] .
      then show "callbacks st1 (identity_key x) = (if x \<in> ?N then None else m x)"
        using reg(2) Cons.prems(3) x by (simp add: requested_keys_identities)
    qed
    have 3: "S - ?N \<subseteq> U" using Cons.prems(5) by auto
    show ?thesis
      using Cons.IH [OF r 1 2 Cons.prems(4) 3 rest] Unsubscribe by simp
  qed
qed

lemma run_calls_last_subscribe:
  assumes "run_calls w (before @ [Subscribe cs cb]) st = (None, st')"
    and "x \<in> named_identities cs"
  shows "callbacks st' (identity_key x) = Some cb"
  using run_calls_registry [OF assms(1)] assms(2)
  by (simp add: registry_bindings_after_append requested_keys_identities)

lemma run_calls_dom:
  assumes "run_calls w calls st = (None, st')" "dom (callbacks st) = subscribed_channels st"
  shows "dom (callbacks st') = subscribed_channels st'"
  using run_calls_registry [OF assms(1)] registry_dom_after_all [OF assms(2), of calls] by simp

lemma colliding_keys:
  "channel_key candle_a = Inr ''SPOT.candle.1m.BTCUSDT''"
  "channel_key candle_b = Inr ''SPOT.candle.1m.BTCUSDT''"
  "channel_identity candle_a = Some (''SPOT'', ''candle'', ''1m.BTCUSDT'')"
  "channel_identity candle_b = Some (''SPOT'', ''candle.1m'', ''BTCUSDT'')"
  by (simp_all add: channel_key_def channel_identity_def candle_a_def candle_b_def)

lemma colliding_calls_run:
  "fst (run_calls world_ok colliding_calls (init_client demo_cfg 0)) = None"
  by code_simp

lemma colliding_calls_registry:
  "subscribed_channels (snd (run_calls world_ok colliding_calls (init_client demo_cfg 0))) = {}"
proof -
  define st' where "st' = snd (run_calls world_ok colliding_calls (init_client demo_cfg 0))"
  have r: "run_calls world_ok colliding_calls (init_client demo_cfg 0) = (None, st')"
    using colliding_calls_run by (simp add: st'_def prod_eq_iff)
  have "requested_keys [candle_a] = {''SPOT.candle.1m.BTCUSDT''}"
    "requested_keys [candle_b] = {''SPOT.candle.1m.BTCUSDT''}"
    by (simp_all add: requested_keys_def colliding_keys)
  then show ?thesis
    unfolding st'_def [symmetric]
    using run_calls_registry [OF r] by (simp add: colliding_calls_def init_client_def)
qed

lemma rebinding_calls_run:
  "fst (run_calls world_ok rebinding_calls (init_client demo_cfg 0)) = None"
  by code_simp

lemma rebinding_calls_registry:
  "callbacks (snd (run_calls world_ok rebinding_calls (init_client demo_cfg 0)))
     ''SPOT.candle.1m.BTCUSDT'' = Some 2"
proof -
  define st' where "st' = snd (run_calls world_ok rebinding_calls (init_client demo_cfg 0))"
  have r: "run_calls world_ok rebinding_calls (init_client demo_cfg 0) = (None, st')"
    using rebinding_calls_run by (simp add: st'_def prod_eq_iff)
  have "requested_keys [candle_a] = {''SPOT.candle.1m.BTCUSDT''}"
    "requested_keys [candle_b] = {''SPOT.candle.1m.BTCUSDT''}"
    by (simp_all add: requested_keys_def colliding_keys)
  then show ?thesis
    unfolding st'_def [symmetric]
    using run_calls_registry [OF r] by (simp add: rebinding_calls_def init_client_def)
qed

lemma ticker_identity:
  "channel_identity (ticker n) = Some (ticker_id n)" "identity_key (ticker_id n) = ticker_key n"
  by (simp_all add: channel_identity_def ticker_def ticker_id_def identity_key_def ticker_key_def)

lemma named_identities_tickers: "named_identities (map ticker ns) = ticker_id ` set ns"
  by (induction ns) (simp_all add: named_identities_Nil named_identities_Cons ticker_identity)

lemma ticker_id_eq: "(ticker_id m = ticker_id n) = (m = n)"
  by (auto simp: ticker_id_def dest: str_nat_inj)

text \<open>
  C9, as the code has it.  Whatever the calls, a registry whose callback map binds
  exactly the recorded keys stays so, and after a subscribe every identity it names is
  bound to that call's callback, whatever was bound before: one binding per key.  When no
  two different identities among those recorded at the start and those the calls name
  share a key, the recorded set is the set of keys of the identities the call sequence
  implies, an identity is recorded exactly when it is implied, and each identity is bound
  as the call sequence implies.
\<close>

theorem registry_follows_calls:
  "run_calls w calls st = (None, st') \<longrightarrow>
     (dom (callbacks st) = subscribed_channels st \<longrightarrow>
        dom (callbacks st') = subscribed_channels st') \<and>
     (\<forall>before cs cb x. calls = before @ [Subscribe cs cb] \<and> x \<in> named_identities cs \<longrightarrow>
        callbacks st' (identity_key x) = Some cb) \<and>
     (subscribed_channels st = identity_key ` S \<and>
      (\<forall>x \<in> S \<union> called_identities calls. callbacks st (identity_key x) = m x) \<and>
      inj_on identity_key (S \<union> called_identities calls) \<longrightarrow>
        subscribed_channels st' = identity_key ` implied_identities S calls \<and>
        (\<forall>x \<in> S \<union> called_identities calls.
            (identity_key x \<in> subscribed_channels st') = (x \<in> implied_identities S calls) \<and>
            callbacks st' (identity_key x) = implied_callbacks m calls x))"
proof (intro impI conjI allI)
  assume r: "run_calls w calls st = (None, st')"
  show "dom (callbacks st') = subscribed_channels st'"
    if "dom (callbacks st) = subscribed_channels st"
    using run_calls_dom [OF r that] .
  show "callbacks st' (identity_key x) = Some cb"
    if "calls = before @ [Subscribe cs cb] \<and> x \<in> named_identities cs" for before cs cb x
    using run_calls_last_subscribe [of w before cs cb st st' x] r that by simp
  assume h: "subscribed_channels st = identity_key ` S \<and>
      (\<forall>x \<in> S \<union> called_identities calls. callbacks st (identity_key x) = m x) \<and>
      inj_on identity_key (S \<union> called_identities calls)"
  let ?U = "S \<union> called_identities calls"
  have inj: "inj_on identity_key ?U" using h by blast
  have ids: "subscribed_channels st' = identity_key ` implied_identities S calls \<and>
         (\<forall>x \<in> ?U. callbacks st' (identity_key x) = implied_callbacks m calls x)"
    by (rule run_calls_identities [OF r _ _ inj]) (use h in auto)
  show "subscribed_channels st' = identity_key ` implied_identities S calls"
    using ids by blast
  show "\<forall>x \<in> ?U.
            (identity_key x \<in> subscribed_channels st') = (x \<in> implied_identities S calls) \<and>
            callbacks st' (identity_key x) = implied_callbacks m calls x"
  proof
    fix x assume x: "x \<in> ?U"
    have "(identity_key x \<in> identity_key ` implied_identities S calls) =
            (x \<in> implied_identities S calls)"
      using key_in_image [OF inj x implied_identities_subset] .
    then show "(identity_key x \<in> subscribed_channels st') = (x \<in> implied_identities S calls) \<and>
            callbacks st' (identity_key x) = implied_callbacks m calls x"
      using ids x by simp
  qed
qed

theorem registry_follows_calls_witness:
  "run_calls world_ok demo_calls (init_client demo_cfg 0) =
     (None, snd (run_calls world_ok demo_calls (init_client demo_cfg 0))) \<and>
   inj_on identity_key ({} \<union> called_identities demo_calls) \<and>
   implied_identities {} demo_calls = {ticker_id 2} \<and>
   subscribed_channels (snd (run_calls world_ok demo_calls (init_client demo_cfg 0))) = {ticker_key 2} \<and>
   callbacks (snd (run_calls world_ok demo_calls (init_client demo_cfg 0))) (ticker_key 2) = Some 2 \<and>
   callbacks (snd (run_calls world_ok demo_calls (init_client demo_cfg 0))) (ticker_key 3) = None \<and>
   dom (callbacks (snd (run_calls world_ok demo_calls (init_client demo_cfg 0)))) = {ticker_key 2}"
proof -
  define st' where "st' = snd (run_calls world_ok demo_calls (init_client demo_cfg 0))"
  have r: "run_calls world_ok demo_calls (init_client demo_cfg 0) = (None, st')"
    using demo_calls_run by (simp add: st'_def prod_eq_iff)
  have ids: "named_identities [ticker 2, ticker 3] = {ticker_id 2, ticker_id 3}"
    "named_identities [ticker 2] = {ticker_id 2}" "named_identities [ticker 3] = {ticker_id 3}"
    using named_identities_tickers [of "[2, 3]"] named_identities_tickers [of "[2]"]
      named_identities_tickers [of "[3]"] by simp_all
  have called: "called_identities demo_calls = {ticker_id 2, ticker_id 3}"
    by (auto simp: demo_calls_def ids)
  have inj: "inj_on identity_key ({} \<union> called_identities demo_calls)"
    by (auto simp: called ticker_identity ticker_key_eq ticker_id_eq)
  have implied: "implied_identities {} demo_calls = {ticker_id 2}"
    by (simp add: demo_calls_def ids ticker_id_eq insert_Diff_if)
  have start: "subscribed_channels (init_client demo_cfg 0 :: nat client) = identity_key ` {}"
    "\<forall>x \<in> {} \<union> called_identities demo_calls.
        callbacks (init_client demo_cfg 0 :: nat client) (identity_key x) = Map.empty x"
    "dom (callbacks (init_client demo_cfg 0 :: nat client)) =
       subscribed_channels (init_client demo_cfg 0 :: nat client)"
    by (simp_all add: init_client_def)
  note reg = registry_follows_calls
    [where w = world_ok and calls = demo_calls and st = "init_client demo_cfg 0" and st' = st'
       and S = "{}" and m = Map.empty, THEN mp, OF r]
  have 1: "subscribed_channels st' = {ticker_key 2}"
    using reg [THEN conjunct2, THEN conjunct2, THEN mp, THEN conjunct1] start inj
    by (simp add: implied ticker_identity)
  have b: "\<forall>x \<in> {} \<union> called_identities demo_calls.
            (identity_key x \<in> subscribed_channels st') = (x \<in> implied_identities {} demo_calls) \<and>
            callbacks st' (identity_key x) = implied_callbacks Map.empty demo_calls x"
    using reg [THEN conjunct2, THEN conjunct2, THEN mp, THEN conjunct2] start inj by blast
  have 2: "callbacks st' (ticker_key 2) = Some 2"
    using b [THEN bspec, of "ticker_id 2"]
    by (simp add: called demo_calls_def ids ticker_identity ticker_id_eq)
  have 3: "callbacks st' (ticker_key 3) = None"
    using b [THEN bspec, of "ticker_id 3"]
    by (simp add: called demo_calls_def ids ticker_identity ticker_id_eq)
  have 4: "dom (callbacks st') = subscribed_channels st'"
    using reg [THEN conjunct1] start(3) by blast
  show ?thesis
    unfolding st'_def [symmetric] using r inj implied 1 2 3 4 by simp
qed

text \<open>
  C9 as stated fails where two identities share a key.  The identities
  (SPOT, candle, 1m.BTCUSDT) and (SPOT, candle.1m, BTCUSDT) differ and both have the key
  SPOT.candle.1m.BTCUSDT.  Subscribing the first and unsubscribing the second, both calls
  succeeding, implies that the first is subscribed, and the registry is empty; subscribing
  the first with callback 1 and the second with callback 2 implies that the first is bound
  to callback 1, and the registry binds its key to callback 2.
\<close>

theorem registry_key_collision_counterexample:
  "fst (run_calls world_ok colliding_calls (init_client demo_cfg 0)) = None \<and>
   implied_identities {} colliding_calls = {(''SPOT'', ''candle'', ''1m.BTCUSDT'')} \<and>
   subscribed_channels (snd (run_calls world_ok colliding_calls (init_client demo_cfg 0))) = {} \<and>
   fst (run_calls world_ok rebinding_calls (init_client demo_cfg 0)) = None \<and>
   implied_callbacks Map.empty rebinding_calls (''SPOT'', ''candle'', ''1m.BTCUSDT'') = Some 1 \<and>
   callbacks (snd (run_calls world_ok rebinding_calls (init_client demo_cfg 0)))
     (identity_key (''SPOT'', ''candle'', ''1m.BTCUSDT'')) = Some 2"
proof -
  have ids: "named_identities [candle_a] = {(''SPOT'', ''candle'', ''1m.BTCUSDT'')}"
    "named_identities [candle_b] = {(''SPOT'', ''candle.1m'', ''BTCUSDT'')}"
    by (simp_all add: named_identities_Cons named_identities_Nil colliding_keys)
  have 1: "implied_identities {} colliding_calls = {(''SPOT'', ''candle'', ''1m.BTCUSDT'')}"
    by (simp add: colliding_calls_def ids)
  have 2: "implied_callbacks Map.empty rebinding_calls (''SPOT'', ''candle'', ''1m.BTCUSDT'') = Some 1"
    by (simp add: rebinding_calls_def ids)
  have 3: "identity_key (''SPOT'', ''candle'', ''1m.BTCUSDT'') = ''SPOT.candle.1m.BTCUSDT''"
    by (simp add: identity_key_def)
  show ?thesis
    using colliding_calls_run colliding_calls_registry rebinding_calls_run
      rebinding_calls_registry 1 2 3 by simp
qed

lemma make_position_all_fields:
  assumes "make_position w symbol now pd = Inr p"
  shows "pos_symbol p = symbol \<and>
         pos_side p = (if dict_get pd ''holdSide'' JNull = Inr (JStr ''long'')
                       then ''long'' else ''short'') \<and>
         get_float w pd ''total'' = Inr (pos_size p) \<and>
         get_float w pd ''openPriceAvg'' = Inr (pos_entry_price p) \<and>
         pos_stop_loss_price p = 0 \<and> pos_take_profit_price p = 0 \<and>
         pos_timestamp p = now \<and>
         get_int w pd ''leverage'' (JStr ''1'') = Inr (pos_leverage p) \<and>
         get_float w pd ''breakEvenPrice'' = Inr (pos_break_even_price p) \<and>
         get_float w pd ''unrealizedPL'' = Inr (pos_unrealized_pl p) \<and>
         get_float w pd ''marginSize'' = Inr (pos_margin_size p) \<and>
         get_float w pd ''available'' = Inr (pos_available p) \<and>
         get_float w pd ''locked'' = Inr (pos_locked p) \<and>
         get_float w pd ''liquidationPrice'' = Inr (pos_liquidation_price p) \<and>
         get_float w pd ''marginRatio'' = Inr (pos_margin_ratio p) \<and>
         get_float w pd ''markPrice'' = Inr (pos_mark_price p) \<and>
         get_float w pd ''achievedProfits'' = Inr (pos_achieved_profits p) \<and>
         get_float w pd ''totalFee'' = Inr (pos_total_fee p) \<and>
         dict_get pd ''marginMode'' (JStr ''crossed'') = Inr (pos_margin_mode p)"
  using assms unfolding make_position_def
  by (auto dest!: bind_err_Inr)

lemma make_position_numeric:
  assumes "make_position w symbol now pd = Inr p"
  shows "numeric_fields_ok w pd"
  using make_position_all_fields [OF assms] by (simp add: numeric_fields_ok_def)

lemma make_position_raises:
  assumes "\<not> numeric_fields_ok w pd"
  shows "\<exists>e. make_position w symbol now pd = Inl e"
  using assms make_position_numeric [of w symbol now pd]
  by (cases "make_position w symbol now pd") auto

text \<open>
  C5, as the code has it.  For a reply that carries code \<^verbatim>\<open>'00000'\<close> and a non-empty
  \<^verbatim>\<open>data\<close> whose reported size \<^verbatim>\<open>reported\<close> converts to a number: a size of zero (or
  below) gives null; a Position is returned exactly when the size is strictly positive
  and every numeric field of the entry converts; a strictly positive size with a field
  that does not convert makes the call raise; and a returned Position is populated from
  the entry field by field: the symbol asked for, side \<^verbatim>\<open>long\<close> when \<^verbatim>\<open>holdSide\<close> is
  \<^verbatim>\<open>'long'\<close> and \<^verbatim>\<open>short\<close> for anything else, the reported size, the prices,
  balances and fees converted by \<^verbatim>\<open>float\<close>, the leverage by \<^verbatim>\<open>int\<close>, the margin mode,
  the clock reading after the request, and zero for the two prices the exchange does not
  report.
\<close>

theorem get_position_by_size:
  assumes "position_reply w symbol api = Replies status (JObj kv)"
    and "map_of kv ''code'' = Some (JStr ''00000'')" and "map_of kv ''data'' = Some data"
    and "truthy data" and "get_float w (position_data_of data) ''total'' = Inr reported"
  shows "(reported \<le> 0 \<longrightarrow> fst (get_position w symbol api) = Inr None) \<and>
         ((\<exists>p. fst (get_position w symbol api) = Inr (Some p)) \<longleftrightarrow>
            0 < reported \<and> numeric_fields_ok w (position_data_of data)) \<and>
         (0 < reported \<and> \<not> numeric_fields_ok w (position_data_of data) \<longrightarrow>
            (\<exists>e. fst (get_position w symbol api) = Inl e)) \<and>
         (\<forall>p. fst (get_position w symbol api) = Inr (Some p) \<longrightarrow>
            pos_symbol p = symbol \<and>
            pos_side p = (if dict_get (position_data_of data) ''holdSide'' JNull = Inr (JStr ''long'')
                          then ''long'' else ''short'') \<and>
            pos_size p = reported \<and>
            get_float w (position_data_of data) ''openPriceAvg'' = Inr (pos_entry_price p) \<and>
            pos_stop_loss_price p = 0 \<and> pos_take_profit_price p = 0 \<and>
            pos_timestamp p = clock_ms w (Suc (length (requests_made api))) \<and>
            get_int w (position_data_of data) ''leverage'' (JStr ''1'') = Inr (pos_leverage p) \<and>
            get_float w (position_data_of data) ''breakEvenPrice'' = Inr (pos_break_even_price p) \<and>
            get_float w (position_data_of data) ''unrealizedPL'' = Inr (pos_unrealized_pl p) \<and>
            get_float w (position_data_of data) ''marginSize'' = Inr (pos_margin_size p) \<and>
            get_float w (position_data_of data) ''available'' = Inr (pos_available p) \<and>
            get_float w (position_data_of data) ''locked'' = Inr (pos_locked p) \<and>
            get_float w (position_data_of data) ''liquidationPrice'' = Inr (pos_liquidation_price p) \<and>
            get_float w (position_data_of data) ''marginRatio'' = Inr (pos_margin_ratio p) \<and>
            get_float w (position_data_of data) ''markPrice'' = Inr (pos_mark_price p) \<and>
            get_float w (position_data_of data) ''achievedProfits'' = Inr (pos_achieved_profits p) \<and>
            get_float w (position_data_of data) ''totalFee'' = Inr (pos_total_fee p) \<and>
            dict_get (position_data_of data) ''marginMode'' (JStr ''crossed'') = Inr (pos_margin_mode p))"
proof -
  let ?now = "clock_ms w (Suc (length (requests_made api)))"
  let ?pd = "position_data_of data"
  have kv: "kv \<noteq> []" using assms(2) by auto
  have eq: "fst (get_position w symbol api) =
        (if reported > 0 then bind_err (make_position w symbol ?now ?pd) (\<lambda>p. Inr (Some p))
         else Inr None)"
    using position_of_ok_response [OF assms(2) assms(3) assms(4) kv, of w symbol ?now] assms(1) assms(5)
    by (simp add: get_position_eq reply_of_def bind_err_def)
  have made: "0 < reported \<and> make_position w symbol ?now ?pd = Inr p"
    if "fst (get_position w symbol api) = Inr (Some p)" for p
    using that eq by (auto split: if_splits dest!: bind_err_Inr)
  have 1: "reported \<le> 0 \<longrightarrow> fst (get_position w symbol api) = Inr None"
    using eq by simp
  have 2: "(\<exists>p. fst (get_position w symbol api) = Inr (Some p)) \<longleftrightarrow>
            0 < reported \<and> numeric_fields_ok w ?pd"
  proof
    assume "\<exists>p. fst (get_position w symbol api) = Inr (Some p)"
    then obtain p where "fst (get_position w symbol api) = Inr (Some p)" by blast
    from made [OF this] show "0 < reported \<and> numeric_fields_ok w ?pd"
      using make_position_numeric by blast
  next
    assume h: "0 < reported \<and> numeric_fields_ok w ?pd"
    from make_position_ok [of w ?pd reported symbol ?now] h assms(5)
    obtain p where "make_position w symbol ?now ?pd = Inr p" by blast
    then show "\<exists>p. fst (get_position w symbol api) = Inr (Some p)"
      using eq h by (simp add: bind_err_def)
  qed
  have 3: "\<exists>e. fst (get_position w symbol api) = Inl e"
    if "0 < reported \<and> \<not> numeric_fields_ok w ?pd"
  proof -
    from make_position_raises [of w ?pd symbol ?now] that
    obtain e where "make_position w symbol ?now ?pd = Inl e" by blast
    then show ?thesis using eq that by (simp add: bind_err_def)
  qed
  have 4: "pos_symbol p = symbol \<and>
            pos_side p = (if dict_get ?pd ''holdSide'' JNull = Inr (JStr ''long'')
                          then ''long'' else ''short'') \<and>
            pos_size p = reported \<and>
            get_float w ?pd ''openPriceAvg'' = Inr (pos_entry_price p) \<and>
            pos_stop_loss_price p = 0 \<and> pos_take_profit_price p = 0 \<and>
            pos_timestamp p = ?now \<and>
            get_int w ?pd ''leverage'' (JStr ''1'') = Inr (pos_leverage p) \<and>
            get_float w ?pd ''breakEvenPrice'' = Inr (pos_break_even_price p) \<and>
            get_float w ?pd ''unrealizedPL'' = Inr (pos_unrealized_pl p) \<and>
            get_float w ?pd ''marginSize'' = Inr (pos_margin_size p) \<and>
            get_float w ?pd ''available'' = Inr (pos_available p) \<and>
            get_float w ?pd ''locked'' = Inr (pos_locked p) \<and>
            get_float w ?pd ''liquidationPrice'' = Inr (pos_liquidation_price p) \<and>
            get_float w ?pd ''marginRatio'' = Inr (pos_margin_ratio p) \<and>
            get_float w ?pd ''markPrice'' = Inr (pos_mark_price p) \<and>
            get_float w ?pd ''achievedProfits'' = Inr (pos_achieved_profits p) \<and>
            get_float w ?pd ''totalFee'' = Inr (pos_total_fee p) \<and>
            dict_get ?pd ''marginMode'' (JStr ''crossed'') = Inr (pos_margin_mode p)"
    if "fst (get_position w symbol api) = Inr (Some p)" for p
    using make_position_all_fields [OF made [OF that, THEN conjunct2]] assms(5) by simp
  show ?thesis
    using 1 2 3 4 by (intro conjI allI impI) blast+
qed

lemma long_entry_fields:
  "get_float long_world (position_entry ''3'' ''long'') ''openPriceAvg'' = Inr (100001 / 2)"
  "get_int long_world (position_entry ''3'' ''long'') ''leverage'' (JStr ''1'') = Inr 10"
  "get_float long_world (position_entry ''3'' ''long'') ''markPrice'' = Inr 0"
  "dict_get (position_entry ''3'' ''long'') ''marginMode'' (JStr ''crossed'') = Inr (JStr ''crossed'')"
  "clock_ms long_world n = 1700"
  by (simp_all add: demo_eval)

theorem get_position_by_size_witness:
  "(\<exists>p. fst (get_position long_world ''BTCUSDT'' new_api) = Inr (Some p) \<and>
        pos_symbol p = ''BTCUSDT'' \<and> pos_side p = ''long'' \<and> pos_size p = 3 \<and>
        pos_entry_price p = 100001 / 2 \<and> pos_leverage p = 10 \<and> pos_mark_price p = 0 \<and>
        pos_stop_loss_price p = 0 \<and> pos_take_profit_price p = 0 \<and>
        pos_timestamp p = 1700 \<and> pos_margin_mode p = JStr ''crossed'') \<and>
   fst (get_position flat_world ''BTCUSDT'' new_api) = Inr None"
proof -
  note long = get_position_by_size
    [where w = long_world and symbol = "''BTCUSDT''" and api = new_api and status = 200
       and kv = "position_body ''3'' ''long''" and data = "JList [position_entry ''3'' ''long'']"
       and reported = 3,
     OF demo_world_replies(1) position_body_fields(1) position_body_fields(2)
        position_body_fields(3)]
  note flat = get_position_by_size
    [where w = flat_world and symbol = "''BTCUSDT''" and api = new_api and status = 200
       and kv = "position_body ''0'' ''long''" and data = "JList [position_entry ''0'' ''long'']"
       and reported = 0,
     OF demo_world_replies(2) position_body_fields(1) position_body_fields(2)
        position_body_fields(3)]
  have l: "get_float long_world (position_data_of (JList [position_entry ''3'' ''long''])) ''total''
             = Inr 3"
    and f: "get_float flat_world (position_data_of (JList [position_entry ''0'' ''long''])) ''total''
             = Inr 0"
    by (simp_all add: position_body_fields(4) demo_entry_facts)
  from long [OF l, THEN conjunct2, THEN conjunct1] demo_entry_facts(3) obtain p where
    p: "fst (get_position long_world ''BTCUSDT'' new_api) = Inr (Some p)"
    by (auto simp: position_body_fields(4))
  from long [OF l, THEN conjunct2, THEN conjunct2, THEN conjunct2, THEN spec, THEN mp, OF p]
  have "pos_symbol p = ''BTCUSDT'' \<and> pos_side p = ''long'' \<and> pos_size p = 3 \<and>
        pos_entry_price p = 100001 / 2 \<and> pos_leverage p = 10 \<and> pos_mark_price p = 0 \<and>
        pos_stop_loss_price p = 0 \<and> pos_take_profit_price p = 0 \<and>
        pos_timestamp p = 1700 \<and> pos_margin_mode p = JStr ''crossed''"
    using demo_entry_facts(4) by (simp add: position_body_fields(4) long_entry_fields)
  moreover have "fst (get_position flat_world ''BTCUSDT'' new_api) = Inr None"
    using flat [OF f] by simp
  ultimately show ?thesis using p by blast
qed

text \<open>
  C5 as stated fails when the entry reports a strictly positive size and a field that
  does not convert.  The exchange reports size 3 with leverage \<^verbatim>\<open>'10.5'\<close>: the size
  converts to 3, \<^verbatim>\<open>int('10.5')\<close> raises ValueError, and \<^verbatim>\<open>get_position\<close> raises it
  instead of returning a Position.
\<close>

theorem get_position_raises_counterexample:
  "position_reply fractional_leverage_world ''BTCUSDT'' new_api
     = Replies 200 (JObj fractional_leverage_body) \<and>
   get_float fractional_leverage_world
     (JObj [(''total'', JStr ''3''), (''holdSide'', JStr ''long''), (''leverage'', JStr ''10.5''),
            (''openPriceAvg'', JStr ''50000.5'')]) ''total'' = Inr 3 \<and>
   fst (get_position fractional_leverage_world ''BTCUSDT'' new_api) = Inl ValueError"
proof -
  have 1: "position_reply fractional_leverage_world ''BTCUSDT'' new_api
     = Replies 200 (JObj fractional_leverage_body)"
    by (simp add: position_reply_def fractional_leverage_world_def rest_script_def)
  have 2: "get_float fractional_leverage_world
     (JObj [(''total'', JStr ''3''), (''holdSide'', JStr ''long''), (''leverage'', JStr ''10.5''),
            (''openPriceAvg'', JStr ''50000.5'')]) ''total'' = Inr 3"
    by (simp add: demo_eval fractional_leverage_world_def)
  have 3: "fst (get_position fractional_leverage_world ''BTCUSDT'' new_api) = Inl ValueError"
    unfolding get_position_eq 1
    by (simp add: reply_of_def position_of_response_def fractional_leverage_body_def truthy_def
        position_data_of_def make_position_def demo_eval fractional_leverage_world_def)
  show ?thesis using 1 2 3 by simp
qed

lemma request_keeps:
  "request w method endpoint params data api = (r, api') \<Longrightarrow> BASE_URL api' = BASE_URL api"
  unfolding request_unfold Let_def
  by (auto split: http_reply.splits)

lemma cancel_order_result:
  "cancel_order w symbol order_id api = (r, api1) \<Longrightarrow>
     r = reply_of (respond w (length (requests_made api)) (last (requests_made api1))) \<and>
     BASE_URL api1 = BASE_URL api \<and>
     (\<exists>req. requests_made api1 = requests_made api @ [req] \<and>
            req_method req = ''POST'' \<and>
            req_url req = BASE_URL api @ ''/api/v2/mix/order/cancel-order'' \<and>
            req_json req = Some (JObj [(''symbol'', JStr symbol), (''orderId'', order_id)]))"
  unfolding cancel_order_def
  by (frule request_keeps, drule request_result) (simp add: built_request_def Let_def)

lemma sweep_cancels_targets:
  assumes "\<forall>i req. object_reply (respond w i req)"
  shows "list_all (well_formed_order w) orders \<Longrightarrow>
     \<exists>api' new. sweep w symbol now orders results api =
          (Inr (results @ replies_from w (length (requests_made api)) api'), api') \<and>
        requests_made api' = requests_made api @ new \<and> BASE_URL api' = BASE_URL api \<and>
        list_all2 (is_cancel_request (BASE_URL api) symbol) (sweep_targets w now orders) new"
proof (induction orders arbitrary: results api)
  case Nil
  then show ?case by (simp add: replies_from_def sweep_targets_def)
next
  case (Cons order orders)
  then have wf: "well_formed_order w order" and rest: "list_all (well_formed_order w) orders"
    by simp_all
  note rd = well_formed_order_reads [OF wf]
  show ?case
  proof (cases "truthy (order_id_of order) \<and> stale w now order")
    case False
    let ?api0 = "api\<lparr>logged := logged api @ [LogDebug ''kept'']\<rparr>"
    from Cons.IH [OF rest, of results ?api0] obtain api' new where
      s: "sweep w symbol now orders results ?api0 =
            (Inr (results @ replies_from w (length (requests_made ?api0)) api'), api')"
      and r: "requests_made api' = requests_made ?api0 @ new"
      and b: "BASE_URL api' = BASE_URL ?api0"
      and j: "list_all2 (is_cancel_request (BASE_URL ?api0) symbol) (sweep_targets w now orders) new"
      by blast
    have "sweep w symbol now (order # orders) results api =
            sweep w symbol now orders results ?api0"
      using False rd by (auto simp: stale_def)
    then show ?thesis
      using s r b j False by (auto simp: sweep_targets_def)
  next
    case True
    obtain result api1 where c: "cancel_order w symbol (order_id_of order) api = (result, api1)"
      by fastforce
    from cancel_order_result [OF c] obtain req where
      res: "result = reply_of (respond w (length (requests_made api)) (last (requests_made api1)))"
      and b1: "BASE_URL api1 = BASE_URL api"
      and rq: "requests_made api1 = requests_made api @ [req]"
      and rj: "is_cancel_request (BASE_URL api) symbol order req"
      by (auto simp: cancel_json_def is_cancel_request_def)
    have res': "result = reply_of (respond w (length (requests_made api)) req)"
      using res rq by simp
    from response_ok_object [OF assms [rule_format, of "length (requests_made api)" req]]
    obtain ok where ok: "response_ok result = Inr ok"
      using res' by (cases "response_ok result") auto
    let ?api2 = "api1\<lparr>logged := logged api1 @
                   [if ok then LogInfo ''cancelled'' else LogError ''cancel failed'']\<rparr>"
    from Cons.IH [OF rest, of "results @ [result]" ?api2] obtain api' new where
      s: "sweep w symbol now orders (results @ [result]) ?api2 =
            (Inr ((results @ [result]) @ replies_from w (length (requests_made ?api2)) api'), api')"
      and r: "requests_made api' = requests_made ?api2 @ new"
      and b: "BASE_URL api' = BASE_URL ?api2"
      and j: "list_all2 (is_cancel_request (BASE_URL ?api2) symbol) (sweep_targets w now orders) new"
      by blast
    have step: "sweep w symbol now (order # orders) results api =
            sweep w symbol now orders (results @ [result]) ?api2"
      using True rd c ok by (simp add: stale_def)
    have all: "requests_made api' = (requests_made api @ [req]) @ new"
      using r rq by simp
    have "replies_from w (length (requests_made api)) api' =
            result # replies_from w (Suc (length (requests_made api))) api'"
      using replies_from_snoc_request [OF all, of w] res' by simp
    then have "sweep w symbol now (order # orders) results api =
        (Inr (results @ replies_from w (length (requests_made api)) api'), api')"
      using step s rq by simp
    moreover have "requests_made api' = requests_made api @ (req # new)"
      using all by simp
    moreover have "BASE_URL api' = BASE_URL api"
      using b b1 by simp
    moreover have "list_all2 (is_cancel_request (BASE_URL api) symbol)
        (sweep_targets w now (order # orders)) (req # new)"
      using True rj j b1 by (simp add: sweep_targets_def)
    ultimately show ?thesis by blast
  qed
qed

lemma malformed_order_raises:
  "\<not> well_formed_order w order \<Longrightarrow>
     isl (dict_get order ''orderId'' JNull) \<or>
     (\<exists>v. dict_get order ''orderId'' JNull = Inr v \<and> isl (get_int w order ''cTime'' (JNum 0)))"
  by (cases order)
     (auto simp: well_formed_order_def dict_get_def split: option.splits)

lemma sweep_raises:
  assumes "\<forall>i req. object_reply (respond w i req)"
  shows "\<not> list_all (well_formed_order w) orders \<Longrightarrow>
     \<exists>e api'. sweep w symbol now orders results api = (Inl e, api')"
proof (induction orders arbitrary: results api)
  case Nil
  then show ?case by simp
next
  case (Cons order orders)
  show ?case
  proof (cases "well_formed_order w order")
    case False
    from malformed_order_raises [OF False] show ?thesis
      by (auto simp: isl_def)
  next
    case wf: True
    then have rest: "\<not> list_all (well_formed_order w) orders"
      using Cons.prems by simp
    note rd = well_formed_order_reads [OF wf]
    show ?thesis
    proof (cases "truthy (order_id_of order) \<and> stale w now order")
      case False
      let ?api0 = "api\<lparr>logged := logged api @ [LogDebug ''kept'']\<rparr>"
      have "sweep w symbol now (order # orders) results api =
              sweep w symbol now orders results ?api0"
        using False rd by (auto simp: stale_def)
      then show ?thesis using Cons.IH [OF rest, of results ?api0] by simp
    next
      case True
      obtain result api1 where c: "cancel_order w symbol (order_id_of order) api = (result, api1)"
        by fastforce
      from cancel_order_result [OF c] obtain req where
        res: "result = reply_of (respond w (length (requests_made api)) (last (requests_made api1)))"
        and rq: "requests_made api1 = requests_made api @ [req]"
        by auto
      have res': "result = reply_of (respond w (length (requests_made api)) req)"
        using res rq by simp
      from response_ok_object [OF assms [rule_format, of "length (requests_made api)" req]]
      obtain ok where ok: "response_ok result = Inr ok"
        using res' by (cases "response_ok result") auto
      let ?api2 = "api1\<lparr>logged := logged api1 @
                     [if ok then LogInfo ''cancelled'' else LogError ''cancel failed'']\<rparr>"
      have "sweep w symbol now (order # orders) results api =
              sweep w symbol now orders (results @ [result]) ?api2"
        using True rd c ok by (simp add: stale_def)
      then show ?thesis using Cons.IH [OF rest, of "results @ [result]" ?api2] by simp
    qed
  qed
qed

lemma get_pending_orders_result:
  assumes "respond w (length (requests_made api)) (fetch_request w symbol api) = Replies status r"
  shows "\<exists>api1. get_pending_orders w (Some symbol) None ''100'' api = (Some r, api1) \<and>
           requests_made api1 = requests_made api @ [fetch_request w symbol api] \<and>
           BASE_URL api1 = BASE_URL api"
proof -
  let ?params = "[(''productType'', ''USDT-FUTURES''), (''limit'', ''100'')]
        @ (if symbol \<noteq> [] then [(''symbol'', symbol)] else [])"
  obtain x api1 where
    q: "request w ''GET'' ''/api/v2/mix/order/orders-pending'' ?params None api = (x, api1)"
    by fastforce
  have g: "get_pending_orders w (Some symbol) None ''100'' api = (x, api1)"
    using q by (cases "symbol = []") (simp_all add: get_pending_orders_def str_truthy_def)
  have "x = Some r \<and> requests_made api1 = requests_made api @ [fetch_request w symbol api]"
    using request_result [OF q] assms by (simp add: reply_of_def fetch_request_def)
  then show ?thesis using g request_keeps [OF q] by simp
qed

lemma cancel_all_sweep:
  assumes obj: "\<forall>i req. object_reply (respond w i req)"
    and fetch: "respond w (length (requests_made api)) (fetch_request w symbol api)
                  = Replies status (JObj kv)"
    and code: "map_of kv ''code'' = Some (JStr ''00000'')"
    and data: "map_of kv ''data'' = Some (JObj dkv)"
    and entrusted: "map_of dkv ''entrustedList'' = Some (JList orders)"
    and wf: "list_all (well_formed_order w) orders"
  shows "\<exists>api' new.
     cancel_all_pending_orders w symbol api =
        (Inr (replies_from w (Suc (length (requests_made api))) api'), api') \<and>
     requests_made api' = requests_made api @ fetch_request w symbol api # new \<and>
     list_all2 (is_cancel_request (BASE_URL api) symbol)
       (sweep_targets w (clock_ms w (length (requests_made api))) orders) new"
proof -
  let ?k = "length (requests_made api)"
  let ?now = "clock_ms w ?k"
  from get_pending_orders_result [OF fetch]
  obtain api1 where g: "get_pending_orders w (Some symbol) None ''100'' api
        = (Some (JObj kv), api1)"
    and r1: "requests_made api1 = requests_made api @ [fetch_request w symbol api]"
    and b1: "BASE_URL api1 = BASE_URL api" by blast
  have kv: "kv \<noteq> []" using code by auto
  have ok: "response_ok (Some (JObj kv)) = Inr True"
    using code kv by (simp add: response_ok_def truthy_def dict_get_def bind_err_def)
  have list: "bind_err (dict_get (JObj kv) ''data'' (JObj []))
                (\<lambda>d. dict_get d ''entrustedList'' (JList [])) = Inr (JList orders)"
    using data entrusted by (simp add: dict_get_def bind_err_def)
  show ?thesis
  proof (cases "orders = []")
    case True
    have "cancel_all_pending_orders w symbol api = (Inr [], api1)"
      using g ok list True by (simp add: cancel_all_pending_orders_def truthy_def)
    moreover have "replies_from w (Suc ?k) api1 = []"
      using r1 by (simp add: replies_from_def)
    ultimately show ?thesis
      using r1 True by (auto simp: sweep_targets_def)
  next
    case False
    from sweep_cancels_targets [OF obj wf, of symbol ?now "[]" api1]
    obtain api' new where
      s: "sweep w symbol ?now orders [] api1 =
            (Inr ([] @ replies_from w (length (requests_made api1)) api'), api')"
      and r: "requests_made api' = requests_made api1 @ new"
      and j: "list_all2 (is_cancel_request (BASE_URL api1) symbol) (sweep_targets w ?now orders) new"
      by blast
    have "cancel_all_pending_orders w symbol api =
            (Inr (replies_from w (Suc ?k) api'), api')"
      using g ok list False s r1
      by (simp add: cancel_all_pending_orders_def truthy_def iterate_def)
    moreover have "requests_made api' = requests_made api @ fetch_request w symbol api # new"
      using r r1 by simp
    ultimately show ?thesis using j b1 by auto
  qed
qed

lemma cancel_all_raises:
  assumes obj: "\<forall>i req. object_reply (respond w i req)"
    and fetch: "respond w (length (requests_made api)) (fetch_request w symbol api)
                  = Replies status (JObj kv)"
    and code: "map_of kv ''code'' = Some (JStr ''00000'')"
    and data: "map_of kv ''data'' = Some (JObj dkv)"
    and entrusted: "map_of dkv ''entrustedList'' = Some (JList orders)"
    and wf: "\<not> list_all (well_formed_order w) orders"
  shows "\<exists>e. fst (cancel_all_pending_orders w symbol api) = Inl e"
proof -
  let ?k = "length (requests_made api)"
  let ?now = "clock_ms w ?k"
  from get_pending_orders_result [OF fetch]
  obtain api1 where g: "get_pending_orders w (Some symbol) None ''100'' api
        = (Some (JObj kv), api1)" by blast
  have kv: "kv \<noteq> []" using code by auto
  have ok: "response_ok (Some (JObj kv)) = Inr True"
    using code kv by (simp add: response_ok_def truthy_def dict_get_def bind_err_def)
  have list: "bind_err (dict_get (JObj kv) ''data'' (JObj []))
                (\<lambda>d. dict_get d ''entrustedList'' (JList [])) = Inr (JList orders)"
    using data entrusted by (simp add: dict_get_def bind_err_def)
  have ne: "orders \<noteq> []" using wf by auto
  from sweep_raises [OF obj wf, of symbol ?now "[]" api1]
  obtain e api' where "sweep w symbol ?now orders [] api1 = (Inl e, api')" by blast
  then have "cancel_all_pending_orders w symbol api = (Inl e, api')"
    using g ok list ne by (simp add: cancel_all_pending_orders_def truthy_def iterate_def)
  then show ?thesis by simp
qed


lemmas sweep_eval =
  well_formed_order_def created_ms_def order_id_of_def stale_def sweep_targets_def
  get_int_def dict_get_def py_int_of_def bind_err_def truthy_def
  rest_script_def demo_int_def digits_only_def read_nat_def digit_val_def
  pending_order_def three_orders_def unnamed_order_def fractional_orders_def

lemma sweep_world_facts:
  "\<forall>i req. object_reply (respond sweep_world i req)"
  "respond sweep_world (length (requests_made new_api)) req
          = Replies 200 (JObj (pending_reply three_orders))"
  "list_all (well_formed_order sweep_world) three_orders"
  "sweep_targets sweep_world (clock_ms sweep_world 0) three_orders
     = [pending_order ''b'' ''69000'', pending_order ''c'' ''55000'']"
  "respond sweep_world (Suc 0) req1 = Replies 200 (JObj [(''code'', JStr ''00000'')])"
  "respond sweep_world 2 req2 = Raises"
  by (simp_all add: sweep_world_def new_api_def object_reply_def pending_reply_def sweep_eval)

lemma unnamed_world_facts:
  "\<forall>i req. object_reply (respond unnamed_world i req)"
  "respond unnamed_world (length (requests_made new_api)) req
          = Replies 200 (JObj (pending_reply [unnamed_order]))"
  "list_all (well_formed_order unnamed_world) [unnamed_order]"
  "sweep_targets unnamed_world (clock_ms unnamed_world 0) [unnamed_order] = []"
  "clock_ms unnamed_world 0 = 100000"
  "100000 - created_ms unnamed_world unnamed_order = 45000"
  "stale unnamed_world 100000 unnamed_order"
  by (simp_all add: unnamed_world_def new_api_def object_reply_def pending_reply_def sweep_eval)

lemma fractional_world_facts:
  "\<forall>i req. object_reply (respond fractional_world i req)"
  "respond fractional_world (length (requests_made new_api)) req
          = Replies 200 (JObj (pending_reply fractional_orders))"
  "\<not> list_all (well_formed_order fractional_world) fractional_orders"
  by (simp_all add: fractional_world_def new_api_def object_reply_def pending_reply_def sweep_eval)

text \<open>
  C3, as the code has it.  The fetch is answered with code \<^verbatim>\<open>'00000'\<close> and a list of
  orders, and every reply of the exchange is a JSON object (or the transport fails).  When
  every listed order is a JSON object whose creation time \<^verbatim>\<open>int\<close> accepts, the sweep
  sends, after the fetch, one cancel request (a POST to the cancel endpoint naming the
  symbol and the order id) for each order that carries an order id and whose age is at
  least thirty seconds, in list order and for no other order; it returns the results of
  exactly these requests, a failed cancellation included as its null or error reply.  With
  no such order, and so for an empty list, the fetch is the only request and the result is
  the empty list.  When some listed order is not of that form, the sweep raises and
  returns no results.
\<close>

theorem stale_sweep_cancels:
  assumes "\<forall>i req. object_reply (respond w i req)"
    and "respond w (length (requests_made api)) (fetch_request w symbol api)
           = Replies status (JObj kv)"
    and "map_of kv ''code'' = Some (JStr ''00000'')"
    and "map_of kv ''data'' = Some (JObj dkv)"
    and "map_of dkv ''entrustedList'' = Some (JList orders)"
  shows "(list_all (well_formed_order w) orders \<longrightarrow>
     (\<exists>api' new.
       cancel_all_pending_orders w symbol api =
          (Inr (replies_from w (Suc (length (requests_made api))) api'), api') \<and>
       requests_made api' = requests_made api @ fetch_request w symbol api # new \<and>
       list_all2 (is_cancel_request (BASE_URL api) symbol)
         (sweep_targets w (clock_ms w (length (requests_made api))) orders) new \<and>
       length (replies_from w (Suc (length (requests_made api))) api')
         = length (sweep_targets w (clock_ms w (length (requests_made api))) orders))) \<and>
    (\<not> list_all (well_formed_order w) orders \<longrightarrow>
       (\<exists>e. fst (cancel_all_pending_orders w symbol api) = Inl e))"
proof (intro conjI impI)
  assume wf: "list_all (well_formed_order w) orders"
  from cancel_all_sweep [OF assms wf] obtain api' new where
    c: "cancel_all_pending_orders w symbol api =
        (Inr (replies_from w (Suc (length (requests_made api))) api'), api')"
    and r: "requests_made api' = requests_made api @ fetch_request w symbol api # new"
    and j: "list_all2 (is_cancel_request (BASE_URL api) symbol)
       (sweep_targets w (clock_ms w (length (requests_made api))) orders) new"
    by blast
  have l: "length new = length (sweep_targets w (clock_ms w (length (requests_made api))) orders)"
    using j by (simp add: list_all2_lengthD)
  have "length (replies_from w (Suc (length (requests_made api))) api')
       = length (requests_made api') - Suc (length (requests_made api))"
    by (simp add: replies_from_def)
  also have "\<dots> = length new"
    using r by simp
  finally have "length (replies_from w (Suc (length (requests_made api))) api')
       = length (sweep_targets w (clock_ms w (length (requests_made api))) orders)"
    using l by simp
  then show "\<exists>api' new.
       cancel_all_pending_orders w symbol api =
          (Inr (replies_from w (Suc (length (requests_made api))) api'), api') \<and>
       requests_made api' = requests_made api @ fetch_request w symbol api # new \<and>
       list_all2 (is_cancel_request (BASE_URL api) symbol)
         (sweep_targets w (clock_ms w (length (requests_made api))) orders) new \<and>
       length (replies_from w (Suc (length (requests_made api))) api')
         = length (sweep_targets w (clock_ms w (length (requests_made api))) orders)"
    using c r j by blast
next
  assume "\<not> list_all (well_formed_order w) orders"
  from cancel_all_raises [OF assms this]
  show "\<exists>e. fst (cancel_all_pending_orders w symbol api) = Inl e" .
qed

theorem stale_sweep_cancels_witness:
  "sweep_targets sweep_world 100000 three_orders
     = [pending_order ''b'' ''69000'', pending_order ''c'' ''55000''] \<and>
   fst (cancel_all_pending_orders sweep_world ''BTCUSDT'' new_api)
     = Inr [Some (JObj [(''code'', JStr ''00000'')]), None] \<and>
   hd (requests_made (snd (cancel_all_pending_orders sweep_world ''BTCUSDT'' new_api)))
     = fetch_request sweep_world ''BTCUSDT'' new_api \<and>
   map req_method (tl (requests_made (snd (cancel_all_pending_orders sweep_world ''BTCUSDT'' new_api))))
     = [''POST'', ''POST''] \<and>
   map req_url (tl (requests_made (snd (cancel_all_pending_orders sweep_world ''BTCUSDT'' new_api))))
     = [''https://api.bitget.com/api/v2/mix/order/cancel-order'',
        ''https://api.bitget.com/api/v2/mix/order/cancel-order''] \<and>
   map req_json (tl (requests_made (snd (cancel_all_pending_orders sweep_world ''BTCUSDT'' new_api))))
     = [cancel_json ''BTCUSDT'' (pending_order ''b'' ''69000''),
        cancel_json ''BTCUSDT'' (pending_order ''c'' ''55000'')] \<and>
   \<not> list_all (well_formed_order fractional_world) fractional_orders \<and>
   (\<exists>e. fst (cancel_all_pending_orders fractional_world ''BTCUSDT'' new_api) = Inl e)"
proof -
  note good = stale_sweep_cancels
    [OF sweep_world_facts(1) sweep_world_facts(2) pending_reply_fields(1)
        pending_reply_fields(2) pending_reply_fields(3),
     of "''BTCUSDT''", THEN conjunct1, THEN mp, OF sweep_world_facts(3)]
  note bad = stale_sweep_cancels
    [OF fractional_world_facts(1) fractional_world_facts(2) pending_reply_fields(1)
        pending_reply_fields(2) pending_reply_fields(3),
     of "''BTCUSDT''", THEN conjunct2, THEN mp, OF fractional_world_facts(3)]
  from good obtain api' new where
    c: "cancel_all_pending_orders sweep_world ''BTCUSDT'' new_api =
        (Inr (replies_from sweep_world (Suc (length (requests_made new_api))) api'), api')"
    and r: "requests_made api' = requests_made new_api @ fetch_request sweep_world ''BTCUSDT'' new_api # new"
    and j: "list_all2 (is_cancel_request (BASE_URL new_api) ''BTCUSDT'')
          (sweep_targets sweep_world (clock_ms sweep_world (length (requests_made new_api)))
             three_orders) new"
    by blast
  have n0: "requests_made new_api = []" "BASE_URL new_api = ''https://api.bitget.com''"
    by (simp_all add: new_api_def)
  from j obtain r1 r2 where new: "new = [r1, r2]"
    and r1: "is_cancel_request ''https://api.bitget.com'' ''BTCUSDT'' (pending_order ''b'' ''69000'') r1"
    and r2: "is_cancel_request ''https://api.bitget.com'' ''BTCUSDT'' (pending_order ''c'' ''55000'') r2"
    by (auto simp: n0 sweep_world_facts(4) list_all2_Cons1)
  have len: "length (requests_made api') = 3"
    using r new n0 by simp
  have "[Suc 0..<3] = [Suc 0, 2]" by (simp add: upt_conv_Cons)
  then have rep: "replies_from sweep_world (Suc 0) api'
      = [Some (JObj [(''code'', JStr ''00000'')]), None]"
    by (simp add: replies_from_def len sweep_world_facts(5,6) reply_of_def)
  have t: "sweep_targets sweep_world 100000 three_orders
     = [pending_order ''b'' ''69000'', pending_order ''c'' ''55000'']"
    using sweep_world_facts(4) by (simp add: sweep_world_def rest_script_def)
  show ?thesis
    using c r new r1 r2 n0 rep t bad fractional_world_facts(3)
    by (simp add: is_cancel_request_def)
qed

text \<open>
  C3 as stated fails.  The fetched order is forty-five seconds old, past the threshold,
  but carries no order id: the sweep skips it, makes no request beyond the fetch and
  returns the empty list.
\<close>

theorem stale_sweep_counterexample:
  "clock_ms unnamed_world 0 = 100000 \<and>
   100000 - created_ms unnamed_world unnamed_order = 45000 \<and>
   stale unnamed_world 100000 unnamed_order \<and>
   fst (cancel_all_pending_orders unnamed_world ''BTCUSDT'' new_api) = Inr [] \<and>
   length (requests_made (snd (cancel_all_pending_orders unnamed_world ''BTCUSDT'' new_api))) = 1"
proof -
  from cancel_all_sweep
    [OF unnamed_world_facts(1) unnamed_world_facts(2) pending_reply_fields(1)
        pending_reply_fields(2) pending_reply_fields(3) unnamed_world_facts(3),
     of "''BTCUSDT''"]
  obtain api' new where
    c: "cancel_all_pending_orders unnamed_world ''BTCUSDT'' new_api =
        (Inr (replies_from unnamed_world (Suc (length (requests_made new_api))) api'), api')"
    and r: "requests_made api' = requests_made new_api @ fetch_request unnamed_world ''BTCUSDT'' new_api # new"
    and j: "list_all2 (is_cancel_request (BASE_URL new_api) ''BTCUSDT'')
          (sweep_targets unnamed_world (clock_ms unnamed_world (length (requests_made new_api)))
             [unnamed_order]) new"
    by blast
  have n0: "requests_made new_api = []" by (simp add: new_api_def)
  have "new = []" using j by (simp add: n0 unnamed_world_facts(4))
  then have len: "length (requests_made api') = 1"
    using r n0 by simp
  then have "replies_from unnamed_world (Suc 0) api' = []"
    by (simp add: replies_from_def)
  then show ?thesis
    using c len n0 unnamed_world_facts(5,6,7) by simp
qed















end
